theory Spec2Isabelle
  imports Complex_Main
begin

unbundle bit_operations_syntax

section \<open>Strings and numbers as the scripts use them\<close>

text \<open>
  Both scripts (\<^verbatim>\<open>ALL.py\<close>, \<^verbatim>\<open>KCF.py\<close>) handle ASCII text only: algorithm names,
  the header of the output file and the decimal rendering of integers in f-strings.
  A Python \<^verbatim>\<open>str\<close> is modelled as a \<open>string\<close>; \<open>upper\<close> is \<^verbatim>\<open>str.upper()\<close> on
  ASCII letters and leaves every other character alone.
\<close>

definition nl :: char where
  "nl = CHR 0x0A"

definition upper_char :: "char \<Rightarrow> char" where
  "upper_char c =
     (case map_of (zip ''abcdefghijklmnopqrstuvwxyz'' ''ABCDEFGHIJKLMNOPQRSTUVWXYZ'') c of
        Some u \<Rightarrow> u
      | None \<Rightarrow> c)"

definition upper :: "string \<Rightarrow> string" where
  "upper s = map upper_char s"

text \<open>\<^verbatim>\<open>str.isdigit()\<close> and \<^verbatim>\<open>int(s)\<close> on ASCII digit strings.\<close>

definition digit_chars :: string where
  "digit_chars = ''0123456789''"

definition isdigit :: "string \<Rightarrow> bool" where
  "isdigit s = (s \<noteq> [] \<and> list_all (\<lambda>c. c \<in> set digit_chars) s)"

definition digit_value :: "char \<Rightarrow> int" where
  "digit_value c = (case map_of (zip digit_chars [0, 1, 2, 3, 4, 5, 6, 7, 8, 9]) c of
                      Some d \<Rightarrow> d
                    | None \<Rightarrow> 0)"

definition parse_int :: "string \<Rightarrow> int" where
  "parse_int s = foldl (\<lambda>acc c. 10 * acc + digit_value c) 0 s"

text \<open>The text that an f-string produces for an \<^verbatim>\<open>int\<close>: \<^verbatim>\<open>str(n)\<close>.\<close>

fun show_nat :: "nat \<Rightarrow> string" where
  "show_nat n =
     (if n < 10 then [digit_chars ! n]
      else show_nat (n div 10) @ [digit_chars ! (n mod 10)])"

declare show_nat.simps [simp del]

definition show_int :: "int \<Rightarrow> string" where
  "show_int i = (if i < 0 then CHR ''-'' # show_nat (nat (- i)) else show_nat (nat i))"

text \<open>
  \<^verbatim>\<open>int(v)\<close> on a coordinate returned by the tracker truncates towards zero. The
  tracker's coordinates are finite numbers; they are modelled as rationals.
\<close>

definition py_int :: "rat \<Rightarrow> int" where
  "py_int q = (if 0 \<le> q then \<lfloor>q\<rfloor> else \<lceil>q\<rceil>)"

text \<open>
  Reading a text file back: \<open>split_sep\<close> is \<^verbatim>\<open>str.split(sep)\<close> for a single
  character, \<open>file_lines\<close> is \<^verbatim>\<open>str.splitlines()\<close> for newline-terminated text, and
  \<open>row_fields\<close> is \<^verbatim>\<open>line.split(',')\<close>. They are used to state what the output file holds.
\<close>

fun split_sep :: "char \<Rightarrow> string \<Rightarrow> string \<Rightarrow> string list" where
  "split_sep sep cur [] = [cur]"
| "split_sep sep cur (c # cs) =
     (if c = sep then cur # split_sep sep [] cs else split_sep sep (cur @ [c]) cs)"

definition file_lines :: "string \<Rightarrow> string list" where
  "file_lines s = (let ps = split_sep nl [] s in if last ps = [] then butlast ps else ps)"

definition row_fields :: "string \<Rightarrow> string list" where
  "row_fields l = split_sep (CHR '','') [] l"

section \<open>The outside world: library, video, user, file system\<close>

type_synonym bbox = "int \<times> int \<times> int \<times> int"
type_synonym fbox = "rat \<times> rat \<times> rat \<times> rat"

text \<open>
  A frame is opaque to the scripts; it is identified by its 1-based position in the
  video. A tracker handle is opaque too: it remembers the constructor that made it.
\<close>

type_synonym frame = int

datatype tracker = Tracker string

datatype source = Camera int | Path string

text \<open>
  Everything the scripts obtain from outside is a field of \<open>env\<close>:
  the attributes of the installed \<^verbatim>\<open>cv2\<close> module, whether the capture opens, how
  many frames \<^verbatim>\<open>video.read()\<close> delivers before it reports failure, the rectangle the
  user draws, what \<^verbatim>\<open>tracker.update\<close> returns on each frame, the FPS number shown,
  the key \<^verbatim>\<open>waitKey(1)\<close> returns after each frame, whether the output path can be
  opened for writing, and the content of the output file before the run
  (\<open>None\<close>: no such file).

  What is taken for granted about the outside: the source is finite (a file, or a
  camera up to the moment it stops delivering); every library call returns; an
  \<^verbatim>\<open>IOError\<close> in the \<^verbatim>\<open>try\<close> block around \<^verbatim>\<open>open\<close> comes from \<^verbatim>\<open>open\<close> itself, the
  buffered writes to an opened file succeed; the tick counter advances during
  \<^verbatim>\<open>tracker.update\<close>, so the FPS quotient exists (\<open>fps_value\<close> is \<^verbatim>\<open>int(fps)\<close>).
  Tick counts and floating-point FPS values are not modelled beyond that.
\<close>

record env =
  cv2_attrs :: "string list"
  opens :: bool
  n_frames :: nat
  roi :: bbox
  update_result :: "frame \<Rightarrow> bool \<times> fbox"
  fps_value :: "frame \<Rightarrow> int"
  wait_key :: "frame \<Rightarrow> int"
  writable :: bool
  disk_before :: "string option"

datatype message =
    MsgCreating string
  | MsgUnsupported string
  | MsgNoContrib
  | MsgOldSyntax
  | MsgIndexOutOfRange
  | MsgCannotOpen string
  | MsgCannotRead
  | MsgUsing string
  | MsgSelectPrompt
  | MsgNoRegion
  | MsgCannotCreateOutput
  | MsgDone string
  | MsgKcfMissing
  | MsgKcfOnly string
  | MsgStart string
  | MsgUserStop
  | MsgEnd

datatype event =
    Print message
  | TrackerCreate string
  | VideoCapture source
  | VideoRead "frame option"
  | SelectROI string frame
  | TrackerInit frame bbox
  | FileOpen string bool
  | FileWrite string
  | TrackerUpdate frame
  | Rectangle frame "int \<times> int" "int \<times> int"
  | PutText frame string "int \<times> int"
  | ImShow string frame
  | WaitKey
  | VideoRelease
  | DestroyAllWindows
  | FileClose
  | SysExit

datatype status = Running | Exited | Finished

text \<open>
  The state of a run: the calls made so far, in order; which resources are open;
  the content of the output file; and how the process ended.
\<close>

record world =
  trace :: "event list"
  video_open :: bool
  windows :: "string list"
  file_open :: bool
  disk :: "string option"
  status :: status

definition init_world :: "env \<Rightarrow> world" where
  "init_world e = \<lparr>trace = [], video_open = False, windows = [], file_open = False,
                   disk = disk_before e, status = Running\<rparr>"

definition emit :: "event \<Rightarrow> world \<Rightarrow> world" where
  "emit ev w = w\<lparr>trace := trace w @ [ev]\<rparr>"

definition sys_exit :: "world \<Rightarrow> world" where
  "sys_exit w = (emit SysExit w)\<lparr>status := Exited\<rparr>"

definition show_window :: "string \<Rightarrow> world \<Rightarrow> world" where
  "show_window name w = (if name \<in> set (windows w) then w else w\<lparr>windows := windows w @ [name]\<rparr>)"

definition file_write :: "string \<Rightarrow> world \<Rightarrow> world" where
  "file_write s w = (emit (FileWrite s) w)\<lparr>disk := Some (case disk w of None \<Rightarrow> s | Some c \<Rightarrow> c @ s)\<rparr>"

definition file_open_w :: "string \<Rightarrow> world \<Rightarrow> world" where
  "file_open_w path w = (emit (FileOpen path True) w)\<lparr>disk := Some [], file_open := True\<rparr>"

definition release_all :: "world \<Rightarrow> world" where
  "release_all w =
     (let w = (emit VideoRelease w)\<lparr>video_open := False\<rparr>;
          w = (emit DestroyAllWindows w)\<lparr>windows := []\<rparr>
      in (emit FileClose w)\<lparr>file_open := False\<rparr>)"

definition video_source :: "string \<Rightarrow> source" where
  "video_source p = (if isdigit p then Camera (parse_int p) else Path p)"

definition esc_pressed :: "env \<Rightarrow> frame \<Rightarrow> bool" where
  "esc_pressed e f = (wait_key e f AND 255 = 27)"


text \<open>
  The module-level constants of the two scripts. They are meant to be edited by the
  user, so the entry points take them as a parameter; \<open>config_ALL\<close> and
  \<open>config_KCF\<close> are the values the files ship with.
\<close>

record config =
  VIDEO_PATH :: string
  OUTPUT_TXT :: string
  TRACKER_TYPES :: "string list"
  SELECTED_INDEX :: int
  TRACKER_TYPE :: string

definition config_ALL :: config where
  "config_ALL = \<lparr>VIDEO_PATH = ''bear.mp4'', OUTPUT_TXT = ''tracking_result.txt'',
     TRACKER_TYPES = [''BOOSTING'', ''MIL'', ''KCF'', ''TLD'', ''MEDIANFLOW'', ''MOSSE'', ''CSRT''],
     SELECTED_INDEX = 6, TRACKER_TYPE = []\<rparr>"

definition config_KCF :: config where
  "config_KCF = \<lparr>VIDEO_PATH = ''bear.mp4'', OUTPUT_TXT = ''tracking_data.txt'',
     TRACKER_TYPES = [], SELECTED_INDEX = 0, TRACKER_TYPE = ''KCF''\<rparr>"

text \<open>
  Calling a constructor of the \<^verbatim>\<open>cv2\<close> module: \<open>None\<close> stands for the
  \<^verbatim>\<open>AttributeError\<close> raised when the installed library has no such attribute.
\<close>

definition cv2_create :: "env \<Rightarrow> string \<Rightarrow> tracker option" where
  "cv2_create e attr = (if attr \<in> set (cv2_attrs e) then Some (Tracker attr) else None)"

text \<open>The rows written to the output file (both scripts use the same two forms).\<close>

definition header_row :: string where
  "header_row = ''Frame_ID, X, Y, W, H'' @ [nl]"

definition data_row :: "int \<Rightarrow> int \<Rightarrow> int \<Rightarrow> int \<Rightarrow> int \<Rightarrow> string" where
  "data_row frame_id x y w h =
     show_int frame_id @ '', '' @ show_int x @ '', '' @ show_int y @ '', '' @
     show_int w @ '', '' @ show_int h @ [nl]"

definition sentinel_row :: "int \<Rightarrow> string" where
  "sentinel_row frame_id = show_int frame_id @ '', -1, -1, -1, -1'' @ [nl]"

section \<open>ALL.py\<close>

definition supported_ALL :: "string list" where
  "supported_ALL = [''BOOSTING'', ''MIL'', ''KCF'', ''TLD'', ''MEDIANFLOW'', ''MOSSE'', ''CSRT'']"

definition try_create_ALL :: "env \<Rightarrow> string \<Rightarrow> world \<Rightarrow> tracker option \<times> world" where
  "try_create_ALL e attr s =
     (case cv2_create e attr of
        Some t \<Rightarrow> (Some t, emit (TrackerCreate attr) s)
      | None \<Rightarrow> (None, emit (Print MsgOldSyntax) (emit (Print MsgNoContrib) s)))"

definition create_tracker_by_name :: "env \<Rightarrow> string \<Rightarrow> world \<Rightarrow> tracker option \<times> world" where
  "create_tracker_by_name e tracker_type s =
     (let tracker_type = upper tracker_type;
          s = emit (Print (MsgCreating tracker_type)) s
      in if tracker_type = ''BOOSTING'' then try_create_ALL e ''TrackerBoosting_create'' s
         else if tracker_type = ''MIL'' then try_create_ALL e ''TrackerMIL_create'' s
         else if tracker_type = ''KCF'' then try_create_ALL e ''TrackerKCF_create'' s
         else if tracker_type = ''TLD'' then try_create_ALL e ''TrackerTLD_create'' s
         else if tracker_type = ''MEDIANFLOW'' then try_create_ALL e ''TrackerMedianFlow_create'' s
         else if tracker_type = ''MOSSE'' then try_create_ALL e ''TrackerMOSSE_create'' s
         else if tracker_type = ''CSRT'' then try_create_ALL e ''TrackerCSRT_create'' s
         else (None, emit (Print (MsgUnsupported tracker_type)) s))"

text \<open>Lines 115 to 151 of \<^verbatim>\<open>ALL.py\<close>: one frame of the loop, between read and key poll.\<close>

definition body_ALL :: "env \<Rightarrow> string \<Rightarrow> frame \<Rightarrow> world \<Rightarrow> world" where
  "body_ALL e tracker_name frame_id s =
     (let (ok, bbox) = update_result e frame_id;
          s = emit (TrackerUpdate frame_id) s;
          s = (if ok then
                 (case bbox of (b0, b1, b2, b3) \<Rightarrow>
                    let p1 = (py_int b0, py_int b1);
                        p2 = (py_int (b0 + b2), py_int (b1 + b3));
                        x = py_int b0; y = py_int b1; w = py_int b2; h = py_int b3;
                        s = emit (Rectangle frame_id p1 p2) s;
                        s = emit (PutText frame_id
                              (''X:'' @ show_int x @ '' Y:'' @ show_int y @ '' W:'' @ show_int w
                                @ '' H:'' @ show_int h) (x, y - 10)) s
                    in file_write (data_row frame_id x y w h) s)
               else
                 file_write (sentinel_row frame_id)
                   (emit (PutText frame_id ''Tracking failure detected'' (100, 80)) s));
          s = emit (PutText frame_id (tracker_name @ '' Tracker'') (20, 20)) s;
          s = emit (PutText frame_id (''FPS : '' @ show_int (fps_value e frame_id)) (20, 50)) s
      in show_window ''Tracker'' (emit (ImShow ''Tracker'' frame_id) s))"

text \<open>
  The \<^verbatim>\<open>while True\<close> loop. The first argument counts the frames the source can still
  deliver: when it is 0, \<^verbatim>\<open>video.read()\<close> reports failure and the loop breaks.
\<close>

fun track_loop_ALL :: "env \<Rightarrow> string \<Rightarrow> nat \<Rightarrow> int \<Rightarrow> world \<Rightarrow> world" where
  "track_loop_ALL e tracker_name 0 frame_id s = emit (VideoRead None) s"
| "track_loop_ALL e tracker_name (Suc r) frame_id s =
     (let frame_id = frame_id + 1;
          s = emit (VideoRead (Some frame_id)) s;
          s = body_ALL e tracker_name frame_id s;
          s = emit WaitKey s
      in if esc_pressed e frame_id then s
         else track_loop_ALL e tracker_name r frame_id s)"

text \<open>Steps 3 to the end of \<^verbatim>\<open>main\<close> (lines 72 to 159), once the tracker exists.\<close>

definition run_ALL :: "config \<Rightarrow> env \<Rightarrow> string \<Rightarrow> world \<Rightarrow> world" where
  "run_ALL c e tracker_name s =
     (let s = (emit (VideoCapture (video_source (VIDEO_PATH c))) s)\<lparr>video_open := opens e\<rparr>
      in if \<not> opens e then sys_exit (emit (Print (MsgCannotOpen (VIDEO_PATH c))) s)
      else if n_frames e = 0 then sys_exit (emit (Print MsgCannotRead) (emit (VideoRead None) s))
      else
        let s = emit (VideoRead (Some 1)) s;
            s = emit (Print (MsgUsing tracker_name)) s;
            s = emit (Print MsgSelectPrompt) s;
            s = show_window ''Tracker'' (emit (SelectROI ''Tracker'' 1) s);
            bbox = roi e
        in if fst (snd (snd bbox)) = 0 \<or> snd (snd (snd bbox)) = 0
           then sys_exit (emit (Print MsgNoRegion) s)
           else
             let s = emit (TrackerInit 1 bbox) s
             in if \<not> writable e
                then sys_exit (emit (Print MsgCannotCreateOutput)
                                 (emit (FileOpen (OUTPUT_TXT c) False) s))
                else
                  let s = file_open_w (OUTPUT_TXT c) s;
                      s = file_write (''Algorithm: '' @ tracker_name @ [nl]) s;
                      s = file_write header_row s;
                      s = track_loop_ALL e tracker_name (n_frames e - 1) 1 s;
                      s = release_all s;
                      s = emit (Print (MsgDone (OUTPUT_TXT c))) s
                  in s\<lparr>status := Finished\<rparr>)"

definition main_ALL :: "config \<Rightarrow> env \<Rightarrow> world" where
  "main_ALL c e =
     (let s = init_world e;
          (tracker_name, s) =
             (if 0 \<le> SELECTED_INDEX c \<and> SELECTED_INDEX c < int (length (TRACKER_TYPES c))
              then (TRACKER_TYPES c ! nat (SELECTED_INDEX c), s)
              else (''KCF'', emit (Print MsgIndexOutOfRange) s));
          (tracker, s) = create_tracker_by_name e tracker_name s
      in case tracker of
           None \<Rightarrow> sys_exit s
         | Some t \<Rightarrow> run_ALL c e tracker_name s)"

section \<open>KCF.py\<close>

definition create_tracker :: "env \<Rightarrow> string \<Rightarrow> world \<Rightarrow> tracker option \<times> world" where
  "create_tracker e tracker_type s =
     (let tracker_type = upper tracker_type
      in if tracker_type = ''KCF'' then
           (case cv2_create e ''TrackerKCF_create'' of
              Some t \<Rightarrow> (Some t, emit (TrackerCreate ''TrackerKCF_create'') s)
            | None \<Rightarrow>
                (case cv2_create e ''legacy.TrackerKCF_create'' of
                   Some t \<Rightarrow> (Some t, emit (TrackerCreate ''legacy.TrackerKCF_create'') s)
                 | None \<Rightarrow> (None, emit (Print MsgKcfMissing) s)))
         else (None, emit (Print (MsgKcfOnly tracker_type)) s))"

text \<open>Lines 88 to 129 of \<^verbatim>\<open>KCF.py\<close>: one frame of the loop, between read and key poll.\<close>

definition body_KCF :: "config \<Rightarrow> env \<Rightarrow> frame \<Rightarrow> world \<Rightarrow> world" where
  "body_KCF c e frame_id s =
     (let (ok, bbox) = update_result e frame_id;
          s = emit (TrackerUpdate frame_id) s;
          s = (if ok then
                 (case bbox of (b0, b1, b2, b3) \<Rightarrow>
                    let x = py_int b0; y = py_int b1; w = py_int b2; h = py_int b3;
                        s = emit (Rectangle frame_id (x, y) (x + w, y + h)) s;
                        s = emit (PutText frame_id
                              (''Coord: x='' @ show_int x @ '', y='' @ show_int y @ '', w=''
                                @ show_int w @ '', h='' @ show_int h) (x, y - 10)) s
                    in file_write (data_row frame_id x y w h) s)
               else
                 file_write (sentinel_row frame_id)
                   (emit (PutText frame_id ''Tracking failure detected'' (100, 80)) s));
          s = emit (PutText frame_id (''Tracker: '' @ TRACKER_TYPE c) (20, 20)) s;
          s = emit (PutText frame_id (''FPS : '' @ show_int (fps_value e frame_id)) (20, 50)) s
      in show_window ''KCF Tracker'' (emit (ImShow ''KCF Tracker'' frame_id) s))"

fun track_loop_KCF :: "config \<Rightarrow> env \<Rightarrow> nat \<Rightarrow> int \<Rightarrow> world \<Rightarrow> world" where
  "track_loop_KCF c e 0 frame_id s = emit (VideoRead None) s"
| "track_loop_KCF c e (Suc r) frame_id s =
     (let frame_id = frame_id + 1;
          s = emit (VideoRead (Some frame_id)) s;
          s = body_KCF c e frame_id s;
          s = emit WaitKey s
      in if esc_pressed e frame_id then emit (Print MsgUserStop) s
         else track_loop_KCF c e r frame_id s)"

definition run_KCF :: "config \<Rightarrow> env \<Rightarrow> world \<Rightarrow> world" where
  "run_KCF c e s =
     (let s = (emit (VideoCapture (video_source (VIDEO_PATH c))) s)\<lparr>video_open := opens e\<rparr>
      in if \<not> opens e then sys_exit (emit (Print (MsgCannotOpen (VIDEO_PATH c))) s)
      else if n_frames e = 0 then sys_exit (emit (Print MsgCannotRead) (emit (VideoRead None) s))
      else
        let s = emit (VideoRead (Some 1)) s;
            s = emit (Print MsgSelectPrompt) s;
            s = show_window ''KCF Tracker'' (emit (SelectROI ''KCF Tracker'' 1) s);
            bbox = roi e
        in if fst (snd (snd bbox)) = 0 \<or> snd (snd (snd bbox)) = 0
           then sys_exit (emit (Print MsgNoRegion) s)
           else
             let s = emit (TrackerInit 1 bbox) s
             in if \<not> writable e
                then sys_exit (emit (Print MsgCannotCreateOutput)
                                 (emit (FileOpen (OUTPUT_TXT c) False) s))
                else
                  let s = file_open_w (OUTPUT_TXT c) s;
                      s = file_write header_row s;
                      s = emit (Print (MsgStart (OUTPUT_TXT c))) s;
                      s = track_loop_KCF c e (n_frames e - 1) 1 s;
                      s = release_all s;
                      s = emit (Print MsgEnd) s
                  in s\<lparr>status := Finished\<rparr>)"

definition main_KCF :: "config \<Rightarrow> env \<Rightarrow> world" where
  "main_KCF c e =
     (let s = init_world e;
          (tracker, s) = create_tracker e (TRACKER_TYPE c) s
      in case tracker of
           None \<Rightarrow> sys_exit s
         | Some t \<Rightarrow> run_KCF c e s)"


section \<open>What a run leaves behind\<close>

text \<open>
  This section describes runs from the outside: which frames are processed, which rows
  are written, which calls are made on each path. Nothing here is used by the model of
  the scripts above; sections \<open>The loop, call by call\<close> and \<open>Whole runs\<close> prove that
  the model produces exactly these calls and this state (\<open>main_ALL_eq\<close>,
  \<open>main_KCF_eq\<close>), and the claims are then read off.
\<close>

text \<open>
  The frames that go through the loop body, given how many frames the source can
  still deliver and the last frame number read: every frame up to and including the
  first one after which the escape key is polled. Tracking results play no part.
\<close>

fun processed :: "env \<Rightarrow> nat \<Rightarrow> int \<Rightarrow> frame list" where
  "processed e 0 frame_id = []"
| "processed e (Suc r) frame_id =
     (frame_id + 1) # (if esc_pressed e (frame_id + 1) then [] else processed e r (frame_id + 1))"

text \<open>The row that the loop body writes for a frame.\<close>

definition row_text :: "env \<Rightarrow> frame \<Rightarrow> string" where
  "row_text e f =
     (case update_result e f of
        (ok, b0, b1, b2, b3) \<Rightarrow>
          if ok then data_row f (py_int b0) (py_int b1) (py_int b2) (py_int b3)
          else sentinel_row f)"

text \<open>The calls that one pass through the loop body makes, in order.\<close>

definition body_events_ALL :: "env \<Rightarrow> string \<Rightarrow> frame \<Rightarrow> event list" where
  "body_events_ALL e tracker_name f =
     TrackerUpdate f #
     (case update_result e f of
        (ok, b0, b1, b2, b3) \<Rightarrow>
          if ok then
            [Rectangle f (py_int b0, py_int b1) (py_int (b0 + b2), py_int (b1 + b3)),
             PutText f (''X:'' @ show_int (py_int b0) @ '' Y:'' @ show_int (py_int b1) @ '' W:''
                        @ show_int (py_int b2) @ '' H:'' @ show_int (py_int b3))
                     (py_int b0, py_int b1 - 10)]
          else [PutText f ''Tracking failure detected'' (100, 80)]) @
     [FileWrite (row_text e f),
      PutText f (tracker_name @ '' Tracker'') (20, 20),
      PutText f (''FPS : '' @ show_int (fps_value e f)) (20, 50),
      ImShow ''Tracker'' f]"

definition body_events_KCF :: "config \<Rightarrow> env \<Rightarrow> frame \<Rightarrow> event list" where
  "body_events_KCF c e f =
     TrackerUpdate f #
     (case update_result e f of
        (ok, b0, b1, b2, b3) \<Rightarrow>
          if ok then
            [Rectangle f (py_int b0, py_int b1) (py_int b0 + py_int b2, py_int b1 + py_int b3),
             PutText f (''Coord: x='' @ show_int (py_int b0) @ '', y='' @ show_int (py_int b1)
                        @ '', w='' @ show_int (py_int b2) @ '', h='' @ show_int (py_int b3))
                     (py_int b0, py_int b1 - 10)]
          else [PutText f ''Tracking failure detected'' (100, 80)]) @
     [FileWrite (row_text e f),
      PutText f (''Tracker: '' @ TRACKER_TYPE c) (20, 20),
      PutText f (''FPS : '' @ show_int (fps_value e f)) (20, 50),
      ImShow ''KCF Tracker'' f]"

text \<open>
  The calls of the whole loop: for each processed frame the read, the body and the key
  poll; then what ends the loop (\<open>loop_end\<close>): the failed read when the source is
  exhausted, nothing more (\<^verbatim>\<open>ALL.py\<close>) or the stop message (\<^verbatim>\<open>KCF.py\<close>) after escape.
\<close>

fun escaped :: "env \<Rightarrow> nat \<Rightarrow> int \<Rightarrow> bool" where
  "escaped e 0 frame_id = False"
| "escaped e (Suc r) frame_id =
     (if esc_pressed e (frame_id + 1) then True else escaped e r (frame_id + 1))"

definition loop_events_ALL :: "env \<Rightarrow> string \<Rightarrow> nat \<Rightarrow> int \<Rightarrow> event list" where
  "loop_events_ALL e tracker_name r frame_id =
     concat (map (\<lambda>f. VideoRead (Some f) # body_events_ALL e tracker_name f @ [WaitKey])
                 (processed e r frame_id)) @
     (if escaped e r frame_id then [] else [VideoRead None])"

definition loop_events_KCF :: "config \<Rightarrow> env \<Rightarrow> nat \<Rightarrow> int \<Rightarrow> event list" where
  "loop_events_KCF c e r frame_id =
     concat (map (\<lambda>f. VideoRead (Some f) # body_events_KCF c e f @ [WaitKey])
                 (processed e r frame_id)) @
     (if escaped e r frame_id then [Print MsgUserStop] else [VideoRead None])"

text \<open>Projections of a trace.\<close>

definition updated_frames :: "event list \<Rightarrow> frame list" where
  "updated_frames tr = concat (map (\<lambda>ev. case ev of TrackerUpdate f \<Rightarrow> [f] | _ \<Rightarrow> []) tr)"

definition is_init :: "event \<Rightarrow> bool" where
  "is_init ev = (case ev of TrackerInit f b \<Rightarrow> True | _ \<Rightarrow> False)"

definition is_file_open :: "event \<Rightarrow> bool" where
  "is_file_open ev = (case ev of FileOpen p ok \<Rightarrow> True | _ \<Rightarrow> False)"

definition is_capture :: "event \<Rightarrow> bool" where
  "is_capture ev = (case ev of VideoCapture src \<Rightarrow> True | _ \<Rightarrow> False)"

definition is_read :: "event \<Rightarrow> bool" where
  "is_read ev = (case ev of VideoRead f \<Rightarrow> True | _ \<Rightarrow> False)"

definition is_rectangle_on :: "frame \<Rightarrow> event \<Rightarrow> bool" where
  "is_rectangle_on f ev = (case ev of Rectangle g p1 p2 \<Rightarrow> g = f | _ \<Rightarrow> False)"

definition is_release :: "event \<Rightarrow> bool" where
  "is_release ev = (ev = VideoRelease \<or> ev = DestroyAllWindows \<or> ev = FileClose)"


text \<open>
  Step 1 of \<^verbatim>\<open>main\<close> in \<^verbatim>\<open>ALL.py\<close> (lines 61 to 65): the name handed to the factory.
\<close>

definition selected_name :: "config \<Rightarrow> string" where
  "selected_name c =
     (if 0 \<le> SELECTED_INDEX c \<and> SELECTED_INDEX c < int (length (TRACKER_TYPES c))
      then TRACKER_TYPES c ! nat (SELECTED_INDEX c) else ''KCF'')"

text \<open>The handle the factory returns (the world it prints to does not matter).\<close>

definition tracker_ALL :: "env \<Rightarrow> string \<Rightarrow> tracker option" where
  "tracker_ALL e name = fst (create_tracker_by_name e name (init_world e))"

definition tracker_KCF :: "env \<Rightarrow> string \<Rightarrow> tracker option" where
  "tracker_KCF e name = fst (create_tracker e name (init_world e))"

text \<open>
  A run reaches the output-writing stage when the source opens and delivers a first
  frame, the user draws a box of non-zero width and height, and the output path can
  be opened, the tracker having been created.
\<close>

definition ready :: "env \<Rightarrow> bool" where
  "ready e = (opens e \<and> 0 < n_frames e \<and> fst (snd (snd (roi e))) \<noteq> 0 \<and>
              snd (snd (snd (roi e))) \<noteq> 0 \<and> writable e)"

definition starts_ALL :: "config \<Rightarrow> env \<Rightarrow> bool" where
  "starts_ALL c e = (tracker_ALL e (selected_name c) \<noteq> None \<and> ready e)"

definition starts_KCF :: "config \<Rightarrow> env \<Rightarrow> bool" where
  "starts_KCF c e = (tracker_KCF e (TRACKER_TYPE c) \<noteq> None \<and> ready e)"

text \<open>No escape key on any frame of the loop: the video is processed to exhaustion.\<close>

definition no_escape :: "env \<Rightarrow> bool" where
  "no_escape e = list_all (\<lambda>f. \<not> esc_pressed e f) [2..int (n_frames e)]"

text \<open>The name-to-constructor table that the \<^verbatim>\<open>if\<close>/\<^verbatim>\<open>elif\<close> chain of \<^verbatim>\<open>ALL.py\<close> spells out.\<close>

definition constructors_ALL :: "(string \<times> string) list" where
  "constructors_ALL =
     [(''BOOSTING'', ''TrackerBoosting_create''), (''MIL'', ''TrackerMIL_create''),
      (''KCF'', ''TrackerKCF_create''), (''TLD'', ''TrackerTLD_create''),
      (''MEDIANFLOW'', ''TrackerMedianFlow_create''), (''MOSSE'', ''TrackerMOSSE_create''),
      (''CSRT'', ''TrackerCSRT_create'')]"

text \<open>The calls of \<open>run_ALL\<close> and \<open>run_KCF\<close>, path by path.\<close>

definition run_events_ALL :: "config \<Rightarrow> env \<Rightarrow> string \<Rightarrow> event list" where
  "run_events_ALL c e tracker_name =
     VideoCapture (video_source (VIDEO_PATH c)) #
     (if \<not> opens e then [Print (MsgCannotOpen (VIDEO_PATH c)), SysExit]
      else if n_frames e = 0 then [VideoRead None, Print MsgCannotRead, SysExit]
      else
        [VideoRead (Some 1), Print (MsgUsing tracker_name), Print MsgSelectPrompt,
         SelectROI ''Tracker'' 1] @
        (if fst (snd (snd (roi e))) = 0 \<or> snd (snd (snd (roi e))) = 0
         then [Print MsgNoRegion, SysExit]
         else
           TrackerInit 1 (roi e) #
           (if \<not> writable e
            then [FileOpen (OUTPUT_TXT c) False, Print MsgCannotCreateOutput, SysExit]
            else
              [FileOpen (OUTPUT_TXT c) True, FileWrite (''Algorithm: '' @ tracker_name @ [nl]),
               FileWrite header_row] @
              loop_events_ALL e tracker_name (n_frames e - 1) 1 @
              [VideoRelease, DestroyAllWindows, FileClose, Print (MsgDone (OUTPUT_TXT c))])))"

definition run_events_KCF :: "config \<Rightarrow> env \<Rightarrow> event list" where
  "run_events_KCF c e =
     VideoCapture (video_source (VIDEO_PATH c)) #
     (if \<not> opens e then [Print (MsgCannotOpen (VIDEO_PATH c)), SysExit]
      else if n_frames e = 0 then [VideoRead None, Print MsgCannotRead, SysExit]
      else
        [VideoRead (Some 1), Print MsgSelectPrompt, SelectROI ''KCF Tracker'' 1] @
        (if fst (snd (snd (roi e))) = 0 \<or> snd (snd (snd (roi e))) = 0
         then [Print MsgNoRegion, SysExit]
         else
           TrackerInit 1 (roi e) #
           (if \<not> writable e
            then [FileOpen (OUTPUT_TXT c) False, Print MsgCannotCreateOutput, SysExit]
            else
              [FileOpen (OUTPUT_TXT c) True, FileWrite header_row,
               Print (MsgStart (OUTPUT_TXT c))] @
              loop_events_KCF c e (n_frames e - 1) 1 @
              [VideoRelease, DestroyAllWindows, FileClose, Print MsgEnd])))"

text \<open>The rows of a completed output file, after its header.\<close>

definition rows_text :: "env \<Rightarrow> string" where
  "rows_text e = concat (map (row_text e) (processed e (n_frames e - 1) 1))"

text \<open>
  The state in which \<open>run_ALL\<close> and \<open>run_KCF\<close> leave a world whose output file is
  not open, given the calls they made, the window they use and the header they write.
\<close>

definition run_world :: "env \<Rightarrow> string \<Rightarrow> event list \<Rightarrow> string \<Rightarrow> world \<Rightarrow> world" where
  "run_world e win evs hdr s =
     s\<lparr>trace := trace s @ evs,
       video_open := opens e \<and> \<not> ready e,
       windows := (if ready e then []
                   else if opens e \<and> 0 < n_frames e then windows (show_window win s) else windows s),
       disk := (if ready e then Some (hdr @ rows_text e) else disk s),
       status := (if ready e then Finished else Exited)\<rparr>"

text \<open>The calls of the two factories, of step 1 of \<^verbatim>\<open>ALL.py\<close>, and of a whole run.\<close>

definition creation_events_ALL :: "env \<Rightarrow> string \<Rightarrow> event list" where
  "creation_events_ALL e name =
     Print (MsgCreating (upper name)) #
     (case map_of constructors_ALL (upper name) of
        Some attr \<Rightarrow> if attr \<in> set (cv2_attrs e) then [TrackerCreate attr]
                     else [Print MsgNoContrib, Print MsgOldSyntax]
      | None \<Rightarrow> [Print (MsgUnsupported (upper name))])"

definition creation_events_KCF :: "env \<Rightarrow> string \<Rightarrow> event list" where
  "creation_events_KCF e name =
     (if upper name = ''KCF'' then
        if ''TrackerKCF_create'' \<in> set (cv2_attrs e) then [TrackerCreate ''TrackerKCF_create'']
        else if ''legacy.TrackerKCF_create'' \<in> set (cv2_attrs e)
             then [TrackerCreate ''legacy.TrackerKCF_create'']
        else [Print MsgKcfMissing]
      else [Print (MsgKcfOnly (upper name))])"

definition select_events :: "config \<Rightarrow> event list" where
  "select_events c =
     (if 0 \<le> SELECTED_INDEX c \<and> SELECTED_INDEX c < int (length (TRACKER_TYPES c)) then []
      else [Print MsgIndexOutOfRange])"

definition main_events_ALL :: "config \<Rightarrow> env \<Rightarrow> event list" where
  "main_events_ALL c e =
     select_events c @ creation_events_ALL e (selected_name c) @
     (if tracker_ALL e (selected_name c) = None then [SysExit]
      else run_events_ALL c e (selected_name c))"

definition main_events_KCF :: "config \<Rightarrow> env \<Rightarrow> event list" where
  "main_events_KCF c e =
     creation_events_KCF e (TRACKER_TYPE c) @
     (if tracker_KCF e (TRACKER_TYPE c) = None then [SysExit] else run_events_KCF c e)"

text \<open>A row of the output file without its newline.\<close>

definition row_line :: "env \<Rightarrow> frame \<Rightarrow> string" where
  "row_line e f = butlast (row_text e f)"

text \<open>
  A concrete run for the examples: a library that has the KCF and CSRT constructors,
  a clip of three frames, tracking that succeeds on frame 2 and fails on frame 3, no
  key pressed, and a stale output file on disk.
\<close>

definition env_demo :: env where
  "env_demo =
     \<lparr>cv2_attrs = [''TrackerKCF_create'', ''TrackerCSRT_create''], opens = True, n_frames = 3,
      roi = (5, 6, 20, 30),
      update_result = (\<lambda>f. if f = 2 then (True, 10, 20, 30, 40) else (False, 0, 0, 0, 0)),
      fps_value = (\<lambda>f. 25), wait_key = (\<lambda>f. - 1), writable = True,
      disk_before = Some ''stale''\<rparr>"

text \<open>
  Variations of the example: the user draws a box of width 0; the installed library has
  no tracker constructor at all; the configuration names an algorithm that neither
  script knows (\<^verbatim>\<open>ALL.py\<close>) or that \<^verbatim>\<open>KCF.py\<close> does not offer.
\<close>

definition env_no_box :: env where
  "env_no_box = env_demo\<lparr>roi := (5, 6, 0, 30)\<rparr>"



text \<open>
  Two more runs: a second run over a clip of two frames, started on the file that a
  first run over the example left behind (one for each script); and the example with
  tracking failing on frame 2 and succeeding afterwards.
\<close>

definition env_second :: env where
  "env_second = env_demo\<lparr>n_frames := 2, disk_before := disk (main_KCF config_KCF env_demo)\<rparr>"

definition env_second_ALL :: env where
  "env_second_ALL = env_demo\<lparr>n_frames := 2, disk_before := disk (main_ALL config_ALL env_demo)\<rparr>"


section \<open>Text lemmas\<close>

lemma digit_chars_nth: "d < 10 \<Longrightarrow> digit_chars ! d \<in> set digit_chars"
  by (rule nth_mem) (simp add: digit_chars_def)

lemma show_nat_digits: "set (show_nat n) \<subseteq> set digit_chars"
proof (induction n rule: show_nat.induct)
  case (1 n)
  show ?case
  proof (cases "n < 10")
    case True
    then show ?thesis using digit_chars_nth [of n] by (subst show_nat.simps) simp
  next
    case False
    have "n mod 10 < 10" by simp
    then have "digit_chars ! (n mod 10) \<in> set digit_chars" by (rule digit_chars_nth)
    with False "1.IH" show ?thesis by (subst show_nat.simps) simp
  qed
qed

lemma show_int_chars: "set (show_int i) \<subseteq> insert (CHR ''-'') (set digit_chars)"
  using show_nat_digits by (auto simp: show_int_def)

lemma nl_notin_show_int: "nl \<notin> set (show_int i)"
  using show_int_chars [of i] by (auto simp: nl_def digit_chars_def)

lemma comma_notin_show_int: "CHR '','' \<notin> set (show_int i)"
  using show_int_chars [of i] by (auto simp: digit_chars_def)

lemma split_sep_no_sep: "sep \<notin> set l \<Longrightarrow> split_sep sep cur l = [cur @ l]"
  by (induction l arbitrary: cur) auto

lemma split_sep_append:
  "sep \<notin> set l \<Longrightarrow> split_sep sep cur (l @ sep # rest) = (cur @ l) # split_sep sep [] rest"
  by (induction l arbitrary: cur) auto

lemma split_sep_lines:
  "\<forall>l \<in> set ls. sep \<notin> set l \<Longrightarrow>
   split_sep sep [] (concat (map (\<lambda>l. l @ [sep]) ls)) = ls @ [[]]"
proof (induction ls)
  case Nil
  show ?case by simp
next
  case (Cons l ls)
  then have "sep \<notin> set l" by simp
  from split_sep_append [OF this, of "[]" "concat (map (\<lambda>l. l @ [sep]) ls)"] Cons
  show ?case by simp
qed

lemma file_lines_concat:
  "\<forall>l \<in> set ls. nl \<notin> set l \<Longrightarrow> file_lines (concat (map (\<lambda>l. l @ [nl]) ls)) = ls"
  by (simp add: file_lines_def split_sep_lines)

section \<open>Rows and processed frames\<close>

lemma data_row_line:
  "data_row f x y w h =
     (show_int f @ '', '' @ show_int x @ '', '' @ show_int y @ '', '' @ show_int w @ '', '' @ show_int h) @ [nl]"
  by (simp add: data_row_def)

lemma sentinel_row_line: "sentinel_row f = (show_int f @ '', -1, -1, -1, -1'') @ [nl]"
  by (simp add: sentinel_row_def)

lemma row_text_line: "row_text e f = butlast (row_text e f) @ [nl]"
  by (simp add: row_text_def data_row_line sentinel_row_line butlast_append split: prod.splits)

lemma nl_notin_row: "nl \<notin> set (butlast (row_text e f))"
  by (auto simp add: row_text_def data_row_line sentinel_row_line butlast_append nl_notin_show_int
        split: prod.splits) (simp_all add: nl_def)

lemma row_fields_data:
  "row_fields (show_int f @ '', '' @ show_int x @ '', '' @ show_int y @ '', '' @ show_int w @ '', '' @ show_int h)
     = [show_int f, '' '' @ show_int x, '' '' @ show_int y, '' '' @ show_int w, '' '' @ show_int h]"
  by (simp add: row_fields_def split_sep_append split_sep_no_sep comma_notin_show_int)

lemma row_fields_sentinel:
  "row_fields (show_int f @ '', -1, -1, -1, -1'') = [show_int f, '' -1'', '' -1'', '' -1'', '' -1'']"
  by (simp add: row_fields_def split_sep_append comma_notin_show_int)

lemma row_fields_row:
  "row_fields (butlast (row_text e f)) =
     (case update_result e f of
        (ok, b0, b1, b2, b3) \<Rightarrow>
          if ok then [show_int f, '' '' @ show_int (py_int b0), '' '' @ show_int (py_int b1),
                      '' '' @ show_int (py_int b2), '' '' @ show_int (py_int b3)]
          else [show_int f, '' -1'', '' -1'', '' -1'', '' -1''])"
  by (simp add: row_text_def data_row_def sentinel_row_def butlast_append row_fields_def
        split_sep_append split_sep_no_sep comma_notin_show_int split: prod.splits)

lemma length_processed_le: "length (processed e r fid) \<le> r"
  by (induction r arbitrary: fid) auto

lemma upto_step: "[fid + 1 .. fid + 1 + int n] = (fid + 1) # [fid + 1 + 1 .. fid + 1 + int n]"
  by (rule upto_rec1) simp

lemma processed_upto:
  "processed e r fid = [fid + 1 .. fid + int (length (processed e r fid))]"
proof (induction r arbitrary: fid)
  case 0
  show ?case by simp
next
  case (Suc r)
  show ?case
  proof (cases "esc_pressed e (fid + 1)")
    case True
    then have p: "processed e (Suc r) fid = [fid + 1]" by simp
    have "[fid + 1 .. fid + int (length [fid + 1])] = [fid + 1]"
      using upto_step [of fid 0] by simp
    then show ?thesis by (simp only: p)
  next
    case False
    define n where "n = length (processed e r (fid + 1))"
    have p: "processed e (Suc r) fid = (fid + 1) # processed e r (fid + 1)"
      using False by simp
    have l: "fid + int (length (processed e (Suc r) fid)) = fid + 1 + int n"
      unfolding p n_def by simp
    have ih: "processed e r (fid + 1) = [fid + 1 + 1 .. fid + 1 + int n]"
      unfolding n_def by (rule Suc.IH)
    have q: "processed e (Suc r) fid = [fid + 1 .. fid + 1 + int n]"
      by (simp only: p ih upto_step [of fid n])
    show ?thesis by (subst l) (rule q)
  qed
qed

lemma processed_nth:
  assumes "k < length (processed e r fid)"
  shows "processed e r fid ! k = fid + 1 + int k"
proof -
  have "processed e r fid ! k = [fid + 1 .. fid + int (length (processed e r fid))] ! k"
    using processed_upto [of e r fid] by simp
  also have "\<dots> = fid + 1 + int k"
    using assms by (intro nth_upto) simp
  finally show ?thesis .
qed

lemma processed_no_escape:
  "list_all (\<lambda>f. \<not> esc_pressed e f) [fid + 1 .. fid + int r] \<Longrightarrow>
   processed e r fid = [fid + 1 .. fid + int r] \<and> \<not> escaped e r fid"
proof (induction r arbitrary: fid)
  case 0
  show ?case by simp
next
  case (Suc r)
  have a: "fid + int (Suc r) = fid + 1 + int r" by simp
  from Suc.prems have "list_all (\<lambda>f. \<not> esc_pressed e f) ((fid + 1) # [fid + 1 + 1 .. fid + 1 + int r])"
    by (simp only: a upto_step [of fid r])
  then have n: "\<not> esc_pressed e (fid + 1)"
    and r: "list_all (\<lambda>f. \<not> esc_pressed e f) [fid + 1 + 1 .. fid + 1 + int r]"
    by simp_all
  from Suc.IH [OF r] n
  have res: "processed e (Suc r) fid = (fid + 1) # [fid + 1 + 1 .. fid + 1 + int r]"
    and ne: "\<not> escaped e (Suc r) fid"
    by simp_all
  have "[fid + 1 .. fid + int (Suc r)] = (fid + 1) # [fid + 1 + 1 .. fid + 1 + int r]"
    by (simp only: a upto_step [of fid r])
  with res ne show ?case by simp
qed


section \<open>The loop, call by call\<close>

lemma emit_simps [simp]:
  "trace (emit ev s) = trace s @ [ev]" "video_open (emit ev s) = video_open s"
  "windows (emit ev s) = windows s" "file_open (emit ev s) = file_open s"
  "disk (emit ev s) = disk s" "status (emit ev s) = status s"
  by (simp_all add: emit_def)

lemma body_ALL_eq:
  assumes "disk s = Some c" and "''Tracker'' \<in> set (windows s)"
  shows "body_ALL e n f s =
         s\<lparr>trace := trace s @ body_events_ALL e n f, disk := Some (c @ row_text e f)\<rparr>"
  using assms
  by (auto simp: body_ALL_def body_events_ALL_def row_text_def Let_def emit_def file_write_def
        show_window_def split: prod.splits)

lemma body_KCF_eq:
  assumes "disk s = Some c" and "''KCF Tracker'' \<in> set (windows s)"
  shows "body_KCF cf e f s =
         s\<lparr>trace := trace s @ body_events_KCF cf e f, disk := Some (c @ row_text e f)\<rparr>"
  using assms
  by (auto simp: body_KCF_def body_events_KCF_def row_text_def Let_def emit_def file_write_def
        show_window_def split: prod.splits)

lemma track_loop_ALL_eq:
  "disk s = Some c \<Longrightarrow> ''Tracker'' \<in> set (windows s) \<Longrightarrow>
   track_loop_ALL e n r fid s =
     s\<lparr>trace := trace s @ loop_events_ALL e n r fid,
       disk := Some (c @ concat (map (row_text e) (processed e r fid)))\<rparr>"
proof (induction r arbitrary: fid s c)
  case 0
  then show ?case by (simp add: loop_events_ALL_def emit_def)
next
  case (Suc r)
  define s1 where "s1 = emit (VideoRead (Some (fid + 1))) s"
  define s3 where "s3 = emit WaitKey (body_ALL e n (fid + 1) s1)"
  have "body_ALL e n (fid + 1) s1 =
      s1\<lparr>trace := trace s1 @ body_events_ALL e n (fid + 1), disk := Some (c @ row_text e (fid + 1))\<rparr>"
    using Suc.prems by (intro body_ALL_eq) (simp_all add: s1_def)
  then have s3: "s3 = s\<lparr>trace := trace s @ VideoRead (Some (fid + 1)) # body_events_ALL e n (fid + 1) @ [WaitKey],
                        disk := Some (c @ row_text e (fid + 1))\<rparr>"
    by (simp add: s3_def s1_def emit_def)
  have step: "track_loop_ALL e n (Suc r) fid s =
      (if esc_pressed e (fid + 1) then s3 else track_loop_ALL e n r (fid + 1) s3)"
    by (simp add: Let_def s3_def s1_def)
  show ?case
  proof (cases "esc_pressed e (fid + 1)")
    case True
    then show ?thesis by (simp only: step) (simp add: s3 loop_events_ALL_def)
  next
    case False
    have d: "disk s3 = Some (c @ row_text e (fid + 1))" by (simp add: s3)
    have w: "''Tracker'' \<in> set (windows s3)" using Suc.prems by (simp add: s3)
    show ?thesis using False
      by (simp only: step Suc.IH [OF d w]) (simp add: s3 loop_events_ALL_def)
  qed
qed

lemma track_loop_KCF_eq:
  "disk s = Some c \<Longrightarrow> ''KCF Tracker'' \<in> set (windows s) \<Longrightarrow>
   track_loop_KCF cf e r fid s =
     s\<lparr>trace := trace s @ loop_events_KCF cf e r fid,
       disk := Some (c @ concat (map (row_text e) (processed e r fid)))\<rparr>"
proof (induction r arbitrary: fid s c)
  case 0
  then show ?case by (simp add: loop_events_KCF_def emit_def)
next
  case (Suc r)
  define s1 where "s1 = emit (VideoRead (Some (fid + 1))) s"
  define s3 where "s3 = emit WaitKey (body_KCF cf e (fid + 1) s1)"
  have "body_KCF cf e (fid + 1) s1 =
      s1\<lparr>trace := trace s1 @ body_events_KCF cf e (fid + 1), disk := Some (c @ row_text e (fid + 1))\<rparr>"
    using Suc.prems by (intro body_KCF_eq) (simp_all add: s1_def)
  then have s3: "s3 = s\<lparr>trace := trace s @ VideoRead (Some (fid + 1)) # body_events_KCF cf e (fid + 1) @ [WaitKey],
                        disk := Some (c @ row_text e (fid + 1))\<rparr>"
    by (simp add: s3_def s1_def emit_def)
  have step: "track_loop_KCF cf e (Suc r) fid s =
      (if esc_pressed e (fid + 1) then emit (Print MsgUserStop) s3 else track_loop_KCF cf e r (fid + 1) s3)"
    by (simp add: Let_def s3_def s1_def)
  show ?case
  proof (cases "esc_pressed e (fid + 1)")
    case True
    then show ?thesis by (simp only: step) (simp add: s3 loop_events_KCF_def emit_def)
  next
    case False
    have d: "disk s3 = Some (c @ row_text e (fid + 1))" by (simp add: s3)
    have w: "''KCF Tracker'' \<in> set (windows s3)" using Suc.prems by (simp add: s3)
    show ?thesis using False
      by (simp only: step Suc.IH [OF d w]) (simp add: s3 loop_events_KCF_def)
  qed
qed

section \<open>Whole runs\<close>

lemma run_ALL_eq:
  "\<not> file_open s \<Longrightarrow>
   run_ALL c e n s = run_world e ''Tracker'' (run_events_ALL c e n)
                       (''Algorithm: '' @ n @ [nl] @ header_row) s"
  apply (cases "ready e")
   apply (simp add: run_ALL_def run_world_def run_events_ALL_def ready_def Let_def rows_text_def
      track_loop_ALL_eq [where c = "''Algorithm: '' @ n @ [nl] @ header_row"]
      file_open_w_def file_write_def show_window_def release_all_def)
  apply (auto simp add: run_ALL_def run_world_def run_events_ALL_def ready_def Let_def sys_exit_def
      show_window_def)
  done

lemma run_KCF_eq:
  "\<not> file_open s \<Longrightarrow>
   run_KCF c e s = run_world e ''KCF Tracker'' (run_events_KCF c e) header_row s"
  apply (cases "ready e")
   apply (simp add: run_KCF_def run_world_def run_events_KCF_def ready_def Let_def rows_text_def
      track_loop_KCF_eq [where c = "header_row"]
      file_open_w_def file_write_def show_window_def release_all_def)
  apply (auto simp add: run_KCF_def run_world_def run_events_KCF_def ready_def Let_def sys_exit_def
      show_window_def)
  done

lemma create_ALL_eq:
  "create_tracker_by_name e name s =
     (case map_of constructors_ALL (upper name) of Some attr \<Rightarrow> cv2_create e attr | None \<Rightarrow> None,
      s\<lparr>trace := trace s @ creation_events_ALL e name\<rparr>)"
  by (simp add: create_tracker_by_name_def try_create_ALL_def creation_events_ALL_def
      constructors_ALL_def cv2_create_def Let_def emit_def)

lemma tracker_ALL_lookup:
  "tracker_ALL e name =
     (case map_of constructors_ALL (upper name) of Some attr \<Rightarrow> cv2_create e attr | None \<Rightarrow> None)"
  by (simp add: tracker_ALL_def create_ALL_eq)

lemma create_KCF_eq:
  "create_tracker e name s =
     (if upper name = ''KCF'' then
        (case cv2_create e ''TrackerKCF_create'' of
           Some t \<Rightarrow> Some t
         | None \<Rightarrow> cv2_create e ''legacy.TrackerKCF_create'')
      else None,
      s\<lparr>trace := trace s @ creation_events_KCF e name\<rparr>)"
  by (simp add: create_tracker_def creation_events_KCF_def cv2_create_def Let_def emit_def)

lemma tracker_KCF_lookup:
  "tracker_KCF e name =
     (if upper name = ''KCF'' then
        (case cv2_create e ''TrackerKCF_create'' of
           Some t \<Rightarrow> Some t
         | None \<Rightarrow> cv2_create e ''legacy.TrackerKCF_create'')
      else None)"
  by (simp add: tracker_KCF_def create_KCF_eq)

lemma main_ALL_unfold:
  "main_ALL c e =
     (let s = (init_world e)\<lparr>trace := select_events c @ creation_events_ALL e (selected_name c)\<rparr>
      in case tracker_ALL e (selected_name c) of
           None \<Rightarrow> sys_exit s
         | Some t \<Rightarrow> run_ALL c e (selected_name c) s)"
proof (cases "0 \<le> SELECTED_INDEX c \<and> SELECTED_INDEX c < int (length (TRACKER_TYPES c))")
  case True
  then show ?thesis
    by (simp add: main_ALL_def selected_name_def select_events_def create_ALL_eq tracker_ALL_def
        emit_def init_world_def Let_def split: option.splits)
next
  case False
  show ?thesis
    by (simp add: main_ALL_def selected_name_def select_events_def if_not_P [OF False]
        create_ALL_eq tracker_ALL_def emit_def init_world_def Let_def split: option.splits)
qed

lemma main_KCF_unfold:
  "main_KCF c e =
     (let s = (init_world e)\<lparr>trace := creation_events_KCF e (TRACKER_TYPE c)\<rparr>
      in case tracker_KCF e (TRACKER_TYPE c) of
           None \<Rightarrow> sys_exit s
         | Some t \<Rightarrow> run_KCF c e s)"
  by (simp add: main_KCF_def create_KCF_eq tracker_KCF_def init_world_def Let_def
        split: option.splits)

lemma main_ALL_eq:
  "main_ALL c e =
     \<lparr>trace = main_events_ALL c e,
      video_open = (tracker_ALL e (selected_name c) \<noteq> None \<and> opens e \<and> \<not> ready e),
      windows = (if tracker_ALL e (selected_name c) \<noteq> None \<and> \<not> ready e \<and> opens e \<and> 0 < n_frames e
                 then [''Tracker''] else []),
      file_open = False,
      disk = (if starts_ALL c e
              then Some (''Algorithm: '' @ selected_name c @ [nl] @ header_row @ rows_text e)
              else disk_before e),
      status = (if starts_ALL c e then Finished else Exited)\<rparr>"
proof (cases "tracker_ALL e (selected_name c)")
  case None
  then show ?thesis
    by (simp add: main_ALL_unfold main_events_ALL_def starts_ALL_def init_world_def sys_exit_def
        emit_def)
next
  case (Some t)
  then show ?thesis
    by (simp add: main_ALL_unfold main_events_ALL_def starts_ALL_def init_world_def
        run_ALL_eq run_world_def show_window_def)
qed

lemma main_KCF_eq:
  "main_KCF c e =
     \<lparr>trace = main_events_KCF c e,
      video_open = (tracker_KCF e (TRACKER_TYPE c) \<noteq> None \<and> opens e \<and> \<not> ready e),
      windows = (if tracker_KCF e (TRACKER_TYPE c) \<noteq> None \<and> \<not> ready e \<and> opens e \<and> 0 < n_frames e
                 then [''KCF Tracker''] else []),
      file_open = False,
      disk = (if starts_KCF c e then Some (header_row @ rows_text e) else disk_before e),
      status = (if starts_KCF c e then Finished else Exited)\<rparr>"
proof (cases "tracker_KCF e (TRACKER_TYPE c)")
  case None
  then show ?thesis
    by (simp add: main_KCF_unfold main_events_KCF_def starts_KCF_def init_world_def sys_exit_def
        emit_def)
next
  case (Some t)
  then show ?thesis
    by (simp add: main_KCF_unfold main_events_KCF_def starts_KCF_def init_world_def
        run_KCF_eq run_world_def show_window_def)
qed


section \<open>The output file as lines\<close>

lemma processed_all:
  assumes "0 < n_frames e" and "no_escape e"
  shows "processed e (n_frames e - 1) 1 = [2..int (n_frames e)]"
proof -
  have a: "1 + int (n_frames e - 1) = int (n_frames e)" using assms(1) by simp
  have "list_all (\<lambda>f. \<not> esc_pressed e f) [1 + 1 .. 1 + int (n_frames e - 1)]"
    using assms(2) by (simp only: a no_escape_def) simp
  from processed_no_escape [OF this] show ?thesis by (simp only: a) simp
qed

lemma rows_text_all:
  assumes "0 < n_frames e" and "no_escape e"
  shows "rows_text e = concat (map (row_text e) [2..int (n_frames e)])"
  unfolding rows_text_def by (simp only: processed_all [OF assms])

lemma length_upto_frames: "0 < n \<Longrightarrow> length [2..int n] = n - 1"
  by simp

lemma rows_as_lines:
  "concat (map (row_text e) fs) = concat (map (\<lambda>l. l @ [nl]) (map (row_line e) fs))"
proof -
  have "row_text e = (\<lambda>f. row_line e f @ [nl])"
    unfolding row_line_def by (rule ext) (rule row_text_line)
  then show ?thesis by (simp add: comp_def)
qed

lemma header_row_line: "header_row = ''Frame_ID, X, Y, W, H'' @ [nl]"
  by (simp add: header_row_def)

lemma lines_KCF:
  "file_lines (header_row @ concat (map (row_text e) fs)) =
     ''Frame_ID, X, Y, W, H'' # map (row_line e) fs"
proof -
  let ?ls = "''Frame_ID, X, Y, W, H'' # map (row_line e) fs"
  have "header_row @ concat (map (row_text e) fs) = concat (map (\<lambda>l. l @ [nl]) ?ls)"
    by (simp only: rows_as_lines header_row_line list.map concat.simps)
  moreover have "nl \<notin> set ''Frame_ID, X, Y, W, H''" by (simp add: nl_def)
  then have "\<forall>l \<in> set ?ls. nl \<notin> set l"
    by (auto simp: row_line_def nl_notin_row)
  ultimately show ?thesis by (simp only: file_lines_concat)
qed

lemma lines_ALL:
  assumes "nl \<notin> set name"
  shows "file_lines (''Algorithm: '' @ name @ [nl] @ header_row @ concat (map (row_text e) fs)) =
     (''Algorithm: '' @ name) # ''Frame_ID, X, Y, W, H'' # map (row_line e) fs"
proof -
  let ?ls = "(''Algorithm: '' @ name) # ''Frame_ID, X, Y, W, H'' # map (row_line e) fs"
  have "''Algorithm: '' @ name @ [nl] @ header_row @ concat (map (row_text e) fs)
          = concat (map (\<lambda>l. l @ [nl]) ?ls)"
    by (simp only: rows_as_lines header_row_line list.map concat.simps append_assoc)
  moreover have "nl \<notin> set ''Frame_ID, X, Y, W, H''" "nl \<notin> set ''Algorithm: ''"
    by (simp_all add: nl_def)
  with assms have "\<forall>l \<in> set ?ls. nl \<notin> set l"
    by (auto simp: row_line_def nl_notin_row)
  ultimately show ?thesis by (simp only: file_lines_concat)
qed

lemma upper_char_nl: "upper_char nl = nl"
  by (simp add: upper_char_def nl_def)

lemma nl_upper: "nl \<in> set name \<Longrightarrow> nl \<in> set (upper name)"
proof -
  assume "nl \<in> set name"
  then have "upper_char nl \<in> upper_char ` set name" by (rule imageI)
  then show ?thesis by (simp add: upper_def upper_char_nl)
qed

lemma supported_lookup:
  "map_of constructors_ALL n \<noteq> None \<longleftrightarrow> n \<in> set supported_ALL"
  by (simp add: constructors_ALL_def supported_ALL_def)

lemma supported_no_nl: "n \<in> set supported_ALL \<Longrightarrow> nl \<notin> set n"
  by (auto simp: supported_ALL_def nl_def)

lemma tracker_ALL_name: "tracker_ALL e name \<noteq> None \<Longrightarrow> upper name \<in> set supported_ALL"
  using supported_lookup [of "upper name"]
  by (auto simp: tracker_ALL_lookup split: option.splits)

lemma tracker_ALL_no_nl: "tracker_ALL e name \<noteq> None \<Longrightarrow> nl \<notin> set name"
  using tracker_ALL_name [of e name] supported_no_nl [of "upper name"] nl_upper [of name] by blast

section \<open>The example run\<close>

lemma demo_starts_ALL: "starts_ALL config_ALL env_demo"
  by (simp add: starts_ALL_def tracker_ALL_lookup selected_name_def config_ALL_def env_demo_def
      constructors_ALL_def upper_def upper_char_def cv2_create_def ready_def)

lemma demo_starts_KCF: "starts_KCF config_KCF env_demo"
  by (simp add: starts_KCF_def tracker_KCF_lookup config_KCF_def env_demo_def
      upper_def upper_char_def cv2_create_def ready_def)

lemma demo_no_escape: "no_escape env_demo"
  by (simp add: no_escape_def env_demo_def esc_pressed_def)

lemma demo_processed: "processed env_demo (n_frames env_demo - 1) 1 = [2, 3]"
  using processed_all [of env_demo] demo_no_escape
  by (simp add: env_demo_def upto_rec1)

lemma show_int_2: "show_int 2 = ''2''" "show_int 3 = ''3''" "show_int 10 = ''10''" "show_int 20 = ''20''"
  "show_int 30 = ''30''" "show_int 40 = ''40''"
  by (simp_all add: show_int_def show_nat.simps digit_chars_def)

lemma demo_rows: "rows_text env_demo = ''2, 10, 20, 30, 40'' @ [nl] @ ''3, -1, -1, -1, -1'' @ [nl]"
proof -
  have "update_result env_demo 2 = (True, 10, 20, 30, 40)"
    and "update_result env_demo 3 = (False, 0, 0, 0, 0)"
    by (simp_all add: env_demo_def)
  then have "row_text env_demo 2 = ''2, 10, 20, 30, 40'' @ [nl]"
    and "row_text env_demo 3 = ''3, -1, -1, -1, -1'' @ [nl]"
    by (simp_all add: row_text_def data_row_def sentinel_row_def show_int_2 py_int_def)
  then show ?thesis unfolding rows_text_def demo_processed by simp
qed

section \<open>Kinds of calls in a trace\<close>

lemma select_events_cases: "ev \<in> set (select_events c) \<Longrightarrow> \<exists>m. ev = Print m"
  by (auto simp: select_events_def split: if_splits)

lemma creation_ALL_cases:
  "ev \<in> set (creation_events_ALL e n) \<Longrightarrow> (\<exists>m. ev = Print m) \<or> (\<exists>a. ev = TrackerCreate a)"
  by (auto simp: creation_events_ALL_def split: option.splits if_splits)

lemma creation_KCF_cases:
  "ev \<in> set (creation_events_KCF e n) \<Longrightarrow> (\<exists>m. ev = Print m) \<or> (\<exists>a. ev = TrackerCreate a)"
  by (auto simp: creation_events_KCF_def split: if_splits)

lemma setup_ALL_cases:
  "ev \<in> set (select_events c @ creation_events_ALL e n) \<Longrightarrow>
   (\<exists>m. ev = Print m) \<or> (\<exists>a. ev = TrackerCreate a)"
  using select_events_cases creation_ALL_cases by fastforce

lemma kinds_Print [simp]:
  "\<not> is_init (Print m)" "\<not> is_file_open (Print m)" "\<not> is_capture (Print m)"
  "\<not> is_read (Print m)" "\<not> is_rectangle_on f (Print m)" "\<not> is_release (Print m)"
  by (simp_all add: is_init_def is_file_open_def is_capture_def is_read_def is_rectangle_on_def
      is_release_def)

lemma kinds_TrackerCreate [simp]:
  "\<not> is_init (TrackerCreate a)" "\<not> is_file_open (TrackerCreate a)" "\<not> is_capture (TrackerCreate a)"
  "\<not> is_read (TrackerCreate a)" "\<not> is_rectangle_on f (TrackerCreate a)"
  "\<not> is_release (TrackerCreate a)"
  by (simp_all add: is_init_def is_file_open_def is_capture_def is_read_def is_rectangle_on_def
      is_release_def)

lemma kinds_SysExit [simp]:
  "\<not> is_init SysExit" "\<not> is_file_open SysExit" "\<not> is_capture SysExit"
  "\<not> is_read SysExit" "\<not> is_rectangle_on f SysExit" "\<not> is_release SysExit"
  by (simp_all add: is_init_def is_file_open_def is_capture_def is_read_def is_rectangle_on_def
      is_release_def)

text \<open>A run whose tracker is not created.\<close>

lemma no_tracker_ALL:
  assumes "tracker_ALL e (selected_name c) = None"
  shows "status (main_ALL c e) = Exited" and "disk (main_ALL c e) = disk_before e"
    and "\<not> video_open (main_ALL c e)" and "windows (main_ALL c e) = []"
    and "trace (main_ALL c e) = select_events c @ creation_events_ALL e (selected_name c) @ [SysExit]"
  using assms by (simp_all add: main_ALL_eq starts_ALL_def main_events_ALL_def)

lemma no_tracker_KCF:
  assumes "tracker_KCF e (TRACKER_TYPE c) = None"
  shows "status (main_KCF c e) = Exited" and "disk (main_KCF c e) = disk_before e"
    and "\<not> video_open (main_KCF c e)" and "windows (main_KCF c e) = []"
    and "trace (main_KCF c e) = creation_events_KCF e (TRACKER_TYPE c) @ [SysExit]"
  using assms by (simp_all add: main_KCF_eq starts_KCF_def main_events_KCF_def)

lemma no_tracker_trace_ALL:
  assumes "tracker_ALL e (selected_name c) = None" and "ev \<in> set (trace (main_ALL c e))"
  shows "(\<exists>m. ev = Print m) \<or> (\<exists>a. ev = TrackerCreate a) \<or> ev = SysExit"
  using assms(2) setup_ALL_cases [of ev c e "selected_name c"]
  by (auto simp: no_tracker_ALL(5) [OF assms(1)])

lemma no_tracker_trace_KCF:
  assumes "tracker_KCF e (TRACKER_TYPE c) = None" and "ev \<in> set (trace (main_KCF c e))"
  shows "(\<exists>m. ev = Print m) \<or> (\<exists>a. ev = TrackerCreate a) \<or> ev = SysExit"
  using assms(2) creation_KCF_cases [of ev e "TRACKER_TYPE c"]
  by (auto simp: no_tracker_KCF(5) [OF assms(1)])

text \<open>The events of a run before the output stage.\<close>

lemma early_run_ALL_cases:
  assumes "\<not> ready e" and "ev \<in> set (run_events_ALL c e n)"
  shows "(\<exists>m. ev = Print m) \<or> (\<exists>src. ev = VideoCapture src) \<or> (\<exists>f. ev = VideoRead f) \<or>
         (\<exists>w f. ev = SelectROI w f) \<or> ((ev = TrackerInit 1 (roi e) \<or> (\<exists>p. ev = FileOpen p False)) \<and> opens e \<and> 0 < n_frames e \<and>
            fst (snd (snd (roi e))) \<noteq> 0 \<and> snd (snd (snd (roi e))) \<noteq> 0) \<or>
         ev = SysExit"
  using assms by (auto simp: run_events_ALL_def ready_def split: if_splits)

lemma early_run_KCF_cases:
  assumes "\<not> ready e" and "ev \<in> set (run_events_KCF c e)"
  shows "(\<exists>m. ev = Print m) \<or> (\<exists>src. ev = VideoCapture src) \<or> (\<exists>f. ev = VideoRead f) \<or>
         (\<exists>w f. ev = SelectROI w f) \<or> ((ev = TrackerInit 1 (roi e) \<or> (\<exists>p. ev = FileOpen p False)) \<and> opens e \<and> 0 < n_frames e \<and>
            fst (snd (snd (roi e))) \<noteq> 0 \<and> snd (snd (snd (roi e))) \<noteq> 0) \<or>
         ev = SysExit"
  using assms by (auto simp: run_events_KCF_def ready_def split: if_splits)

lemma early_trace_ALL:
  assumes "\<not> ready e" and "ev \<in> set (trace (main_ALL c e))"
  shows "(\<exists>m. ev = Print m) \<or> (\<exists>a. ev = TrackerCreate a) \<or> (\<exists>src. ev = VideoCapture src) \<or>
         (\<exists>f. ev = VideoRead f) \<or>
         (\<exists>w f. ev = SelectROI w f) \<or> ((ev = TrackerInit 1 (roi e) \<or> (\<exists>p. ev = FileOpen p False)) \<and> opens e \<and> 0 < n_frames e \<and>
            fst (snd (snd (roi e))) \<noteq> 0 \<and> snd (snd (snd (roi e))) \<noteq> 0) \<or>
         ev = SysExit"
proof -
  from assms(2) have "ev \<in> set (select_events c @ creation_events_ALL e (selected_name c)) \<or>
      ev = SysExit \<or> ev \<in> set (run_events_ALL c e (selected_name c))"
    by (auto simp: main_ALL_eq main_events_ALL_def split: if_splits)
  then show ?thesis
    using setup_ALL_cases [of ev c e "selected_name c"]
      early_run_ALL_cases [OF assms(1), of ev c "selected_name c"] by blast
qed

lemma early_trace_KCF:
  assumes "\<not> ready e" and "ev \<in> set (trace (main_KCF c e))"
  shows "(\<exists>m. ev = Print m) \<or> (\<exists>a. ev = TrackerCreate a) \<or> (\<exists>src. ev = VideoCapture src) \<or>
         (\<exists>f. ev = VideoRead f) \<or>
         (\<exists>w f. ev = SelectROI w f) \<or> ((ev = TrackerInit 1 (roi e) \<or> (\<exists>p. ev = FileOpen p False)) \<and> opens e \<and> 0 < n_frames e \<and>
            fst (snd (snd (roi e))) \<noteq> 0 \<and> snd (snd (snd (roi e))) \<noteq> 0) \<or>
         ev = SysExit"
proof -
  from assms(2) have "ev \<in> set (creation_events_KCF e (TRACKER_TYPE c)) \<or>
      ev = SysExit \<or> ev \<in> set (run_events_KCF c e)"
    by (auto simp: main_KCF_eq main_events_KCF_def split: if_splits)
  then show ?thesis
    using creation_KCF_cases [of ev e "TRACKER_TYPE c"]
      early_run_KCF_cases [OF assms(1), of ev c] by blast
qed

lemma exited_trace_ALL:
  assumes "status (main_ALL c e) = Exited" and "ev \<in> set (trace (main_ALL c e))"
  shows "\<not> is_release ev"
proof (cases "tracker_ALL e (selected_name c)")
  case None
  from no_tracker_trace_ALL [OF None assms(2)] show ?thesis by auto
next
  case (Some t)
  with assms(1) have "\<not> ready e"
    by (auto simp: main_ALL_eq starts_ALL_def split: if_splits)
  from early_trace_ALL [OF this assms(2)] show ?thesis by (auto simp: is_release_def)
qed

lemma exited_trace_KCF:
  assumes "status (main_KCF c e) = Exited" and "ev \<in> set (trace (main_KCF c e))"
  shows "\<not> is_release ev"
proof (cases "tracker_KCF e (TRACKER_TYPE c)")
  case None
  from no_tracker_trace_KCF [OF None assms(2)] show ?thesis by auto
next
  case (Some t)
  with assms(1) have "\<not> ready e"
    by (auto simp: main_KCF_eq starts_KCF_def split: if_splits)
  from early_trace_KCF [OF this assms(2)] show ?thesis by (auto simp: is_release_def)
qed

lemma finished_trace_ALL:
  "status (main_ALL c e) = Finished \<Longrightarrow>
   {VideoRelease, DestroyAllWindows, FileClose} \<subseteq> set (trace (main_ALL c e))"
  by (auto simp: main_ALL_eq starts_ALL_def main_events_ALL_def run_events_ALL_def ready_def
      split: if_splits)

lemma finished_trace_KCF:
  "status (main_KCF c e) = Finished \<Longrightarrow>
   {VideoRelease, DestroyAllWindows, FileClose} \<subseteq> set (trace (main_KCF c e))"
  by (auto simp: main_KCF_eq starts_KCF_def main_events_KCF_def run_events_KCF_def ready_def
      split: if_splits)



lemma no_box_facts:
  "tracker_KCF env_no_box (TRACKER_TYPE config_KCF) = Some (Tracker ''TrackerKCF_create'')"
  "tracker_ALL env_no_box (selected_name config_ALL) = Some (Tracker ''TrackerCSRT_create'')"
  "opens env_no_box" "n_frames env_no_box = 3" "\<not> ready env_no_box"
  "roi env_no_box = (5, 6, 0, 30)"
  by (simp_all add: env_no_box_def env_demo_def tracker_KCF_lookup tracker_ALL_lookup config_KCF_def
      config_ALL_def selected_name_def constructors_ALL_def upper_def upper_char_def cv2_create_def
      ready_def)

section \<open>Independence of the file found on disk\<close>

lemma processed_disk [simp]: "processed (e\<lparr>disk_before := d\<rparr>) r fid = processed e r fid"
  by (induction r arbitrary: fid) (simp_all add: esc_pressed_def)

lemma rows_text_disk [simp]: "rows_text (e\<lparr>disk_before := d\<rparr>) = rows_text e"
  by (simp add: rows_text_def row_text_def cong: map_cong)

lemma cv2_create_disk [simp]: "cv2_create (e\<lparr>disk_before := d\<rparr>) a = cv2_create e a"
  by (simp add: cv2_create_def)

lemma tracker_disk [simp]:
  "tracker_ALL (e\<lparr>disk_before := d\<rparr>) n = tracker_ALL e n"
  "tracker_KCF (e\<lparr>disk_before := d\<rparr>) n = tracker_KCF e n"
  by (simp_all add: tracker_ALL_lookup tracker_KCF_lookup split: option.splits)

lemma starts_disk [simp]:
  "starts_ALL c (e\<lparr>disk_before := d\<rparr>) = starts_ALL c e"
  "starts_KCF c (e\<lparr>disk_before := d\<rparr>) = starts_KCF c e"
  by (simp_all add: starts_ALL_def starts_KCF_def ready_def)

lemma second_facts:
  "starts_KCF config_KCF env_second" "starts_ALL config_ALL env_second_ALL"
  "disk_before env_second = disk (main_KCF config_KCF env_demo)"
  "disk_before env_second_ALL = disk (main_ALL config_ALL env_demo)"
  by (simp_all add: env_second_def env_second_ALL_def starts_KCF_def starts_ALL_def
      tracker_KCF_lookup tracker_ALL_lookup config_KCF_def config_ALL_def selected_name_def
      constructors_ALL_def upper_def upper_char_def cv2_create_def ready_def env_demo_def)

lemma second_rows:
  "rows_text env_second = ''2, 10, 20, 30, 40'' @ [nl]"
  "rows_text env_second_ALL = ''2, 10, 20, 30, 40'' @ [nl]"
proof -
  have e: "\<not> esc_pressed env_second 2" "\<not> esc_pressed env_second_ALL 2"
    by (simp_all add: esc_pressed_def env_second_def env_second_ALL_def env_demo_def)
  have n: "n_frames env_second - Suc 0 = Suc 0" "n_frames env_second_ALL - Suc 0 = Suc 0"
    by (simp_all add: env_second_def env_second_ALL_def)
  have u: "update_result env_second 2 = (True, 10, 20, 30, 40)"
    "update_result env_second_ALL 2 = (True, 10, 20, 30, 40)"
    by (simp_all add: env_second_def env_second_ALL_def env_demo_def)
  show "rows_text env_second = ''2, 10, 20, 30, 40'' @ [nl]"
    "rows_text env_second_ALL = ''2, 10, 20, 30, 40'' @ [nl]"
    using e by (simp_all add: rows_text_def n row_text_def u data_row_def py_int_def show_int_2)
qed

lemma first_field: "hd (row_fields (row_line e f)) = show_int f"
  unfolding row_line_def by (simp add: row_fields_row split: prod.splits)

section \<open>The calls of the loop\<close>

lemma updated_frames_append [simp]:
  "updated_frames (a @ b) = updated_frames a @ updated_frames b"
  by (simp add: updated_frames_def)

lemma updated_frames_Nil [simp]: "updated_frames [] = []"
  by (simp add: updated_frames_def)


































section \<open>Claims\<close>

subsection \<open>C1: header and data rows of a run to exhaustion\<close>

text \<open>
  C1, as stated, fails for \<^verbatim>\<open>ALL.py\<close>: on the example clip of three frames the file
  has four lines, since that script writes an \<^verbatim>\<open>Algorithm:\<close> line before the column
  header. The claim says one header line and (total frames - 1) data rows.
\<close>

theorem c1_counterexample:
  "starts_ALL config_ALL env_demo \<and> no_escape env_demo \<and> n_frames env_demo = 3 \<and>
   disk (main_ALL config_ALL env_demo) =
     Some (''Algorithm: CSRT'' @ [nl] @ ''Frame_ID, X, Y, W, H'' @ [nl] @
           ''2, 10, 20, 30, 40'' @ [nl] @ ''3, -1, -1, -1, -1'' @ [nl]) \<and>
   file_lines (''Algorithm: CSRT'' @ [nl] @ ''Frame_ID, X, Y, W, H'' @ [nl] @
               ''2, 10, 20, 30, 40'' @ [nl] @ ''3, -1, -1, -1, -1'' @ [nl]) =
     [''Algorithm: CSRT'', ''Frame_ID, X, Y, W, H'', ''2, 10, 20, 30, 40'', ''3, -1, -1, -1, -1''] \<and>
   length [''Algorithm: CSRT'', ''Frame_ID, X, Y, W, H'', ''2, 10, 20, 30, 40'', ''3, -1, -1, -1, -1'']
     \<noteq> 1 + (n_frames env_demo - 1)"
proof -
  have "selected_name config_ALL = ''CSRT''"
    by (simp add: selected_name_def config_ALL_def)
  then have "disk (main_ALL config_ALL env_demo) =
     Some (''Algorithm: CSRT'' @ [nl] @ ''Frame_ID, X, Y, W, H'' @ [nl] @
           ''2, 10, 20, 30, 40'' @ [nl] @ ''3, -1, -1, -1, -1'' @ [nl])"
    by (simp add: main_ALL_eq demo_starts_ALL demo_rows header_row_def)
  moreover have "n_frames env_demo = 3" by (simp add: env_demo_def)
  moreover have "file_lines (''Algorithm: CSRT'' @ [nl] @ ''Frame_ID, X, Y, W, H'' @ [nl] @
               ''2, 10, 20, 30, 40'' @ [nl] @ ''3, -1, -1, -1, -1'' @ [nl]) =
     [''Algorithm: CSRT'', ''Frame_ID, X, Y, W, H'', ''2, 10, 20, 30, 40'', ''3, -1, -1, -1, -1'']"
    by (simp add: file_lines_def nl_def)
  ultimately show ?thesis using demo_starts_ALL demo_no_escape by simp
qed


text \<open>
  C1, amended: when a run reaches the output stage and no escape key is polled, the
  output file of \<^verbatim>\<open>KCF.py\<close> is the column header line followed by one row for each of
  the frames 2 to n (n - 1 rows for n frames), and the output file of \<^verbatim>\<open>ALL.py\<close> is
  the \<^verbatim>\<open>Algorithm:\<close> line, the column header line and the same n - 1 rows. A row
  has five comma-separated fields: the frame number and the four truncated
  coordinates, or the frame number and four times -1 when tracking failed.
\<close>

theorem c1_output_rows:
  "(starts_KCF c e \<and> no_escape e \<longrightarrow>
      disk (main_KCF c e) = Some (header_row @ concat (map (row_text e) [2..int (n_frames e)])) \<and>
      file_lines (header_row @ concat (map (row_text e) [2..int (n_frames e)])) =
        ''Frame_ID, X, Y, W, H'' # map (row_line e) [2..int (n_frames e)] \<and>
      length (map (row_line e) [2..int (n_frames e)]) = n_frames e - 1) \<and>
   (starts_ALL c e \<and> no_escape e \<longrightarrow>
      disk (main_ALL c e) =
        Some (''Algorithm: '' @ selected_name c @ [nl] @ header_row @
              concat (map (row_text e) [2..int (n_frames e)])) \<and>
      file_lines (''Algorithm: '' @ selected_name c @ [nl] @ header_row @
                  concat (map (row_text e) [2..int (n_frames e)])) =
        (''Algorithm: '' @ selected_name c) # ''Frame_ID, X, Y, W, H'' #
        map (row_line e) [2..int (n_frames e)] \<and>
      length (map (row_line e) [2..int (n_frames e)]) = n_frames e - 1) \<and>
   row_fields (row_line e f) =
     (case update_result e f of
        (ok, b0, b1, b2, b3) \<Rightarrow>
          if ok then [show_int f, '' '' @ show_int (py_int b0), '' '' @ show_int (py_int b1),
                      '' '' @ show_int (py_int b2), '' '' @ show_int (py_int b3)]
          else [show_int f, '' -1'', '' -1'', '' -1'', '' -1''])"
proof (intro conjI impI)
  assume h: "starts_KCF c e \<and> no_escape e"
  then have n: "0 < n_frames e" by (simp add: starts_KCF_def ready_def)
  from h n show "disk (main_KCF c e) = Some (header_row @ concat (map (row_text e) [2..int (n_frames e)]))"
    by (simp add: main_KCF_eq rows_text_all)
  show "file_lines (header_row @ concat (map (row_text e) [2..int (n_frames e)])) =
        ''Frame_ID, X, Y, W, H'' # map (row_line e) [2..int (n_frames e)]"
    by (rule lines_KCF)
  from n show "length (map (row_line e) [2..int (n_frames e)]) = n_frames e - 1" by simp
next
  assume h: "starts_ALL c e \<and> no_escape e"
  then have n: "0 < n_frames e" by (simp add: starts_ALL_def ready_def)
  from h have "tracker_ALL e (selected_name c) \<noteq> None"
    unfolding starts_ALL_def by (elim conjE)
  then have t: "nl \<notin> set (selected_name c)"
    by (rule tracker_ALL_no_nl)
  from h n show "disk (main_ALL c e) =
        Some (''Algorithm: '' @ selected_name c @ [nl] @ header_row @
              concat (map (row_text e) [2..int (n_frames e)]))"
    by (simp add: main_ALL_eq rows_text_all)
  from t show "file_lines (''Algorithm: '' @ selected_name c @ [nl] @ header_row @
                  concat (map (row_text e) [2..int (n_frames e)])) =
        (''Algorithm: '' @ selected_name c) # ''Frame_ID, X, Y, W, H'' #
        map (row_line e) [2..int (n_frames e)]"
    by (rule lines_ALL)
  from n show "length (map (row_line e) [2..int (n_frames e)]) = n_frames e - 1" by simp
next
  show "row_fields (row_line e f) =
     (case update_result e f of
        (ok, b0, b1, b2, b3) \<Rightarrow>
          if ok then [show_int f, '' '' @ show_int (py_int b0), '' '' @ show_int (py_int b1),
                      '' '' @ show_int (py_int b2), '' '' @ show_int (py_int b3)]
          else [show_int f, '' -1'', '' -1'', '' -1'', '' -1''])"
    unfolding row_line_def by (rule row_fields_row)
qed


theorem c1_output_rows_witness:
  "starts_KCF config_KCF env_demo \<and> starts_ALL config_ALL env_demo \<and> no_escape env_demo \<and>
   disk (main_KCF config_KCF env_demo) =
     Some (header_row @ concat (map (row_text env_demo) [2..int (n_frames env_demo)])) \<and>
   disk (main_ALL config_ALL env_demo) =
     Some (''Algorithm: '' @ selected_name config_ALL @ [nl] @ header_row @
           concat (map (row_text env_demo) [2..int (n_frames env_demo)])) \<and>
   length (map (row_line env_demo) [2..int (n_frames env_demo)]) = 2 \<and>
   row_fields (row_line env_demo 3) = [''3'', '' -1'', '' -1'', '' -1'', '' -1'']"
proof -
  have u: "update_result env_demo 3 = (False, 0, 0, 0, 0)" "n_frames env_demo = 3"
    by (simp_all add: env_demo_def)
  from c1_output_rows [of config_KCF env_demo 3]
       c1_output_rows [of config_ALL env_demo 3]
  show ?thesis
    using demo_starts_KCF demo_starts_ALL demo_no_escape by (simp add: u show_int_2)
qed

subsection \<open>C2: resources on the early-exit paths\<close>

text \<open>
  C2, as stated, fails: when the user draws a box of width 0, \<^verbatim>\<open>KCF.py\<close> prints its
  message and calls \<^verbatim>\<open>sys.exit()\<close> with the capture still open and the selection
  window still shown. No early-exit path of either script releases anything.
\<close>

theorem c2_counterexample:
  "status (main_KCF config_KCF env_no_box) = Exited \<and>
   video_open (main_KCF config_KCF env_no_box) \<and>
   windows (main_KCF config_KCF env_no_box) = [''KCF Tracker''] \<and>
   trace (main_KCF config_KCF env_no_box) =
     [TrackerCreate ''TrackerKCF_create'', VideoCapture (Path ''bear.mp4''), VideoRead (Some 1),
      Print MsgSelectPrompt, SelectROI ''KCF Tracker'' 1, Print MsgNoRegion, SysExit]"
  by (simp add: main_KCF_eq starts_KCF_def no_box_facts main_events_KCF_def run_events_KCF_def
      creation_events_KCF_def)
     (simp add: config_KCF_def env_no_box_def env_demo_def upper_def upper_char_def video_source_def
      isdigit_def digit_chars_def)


text \<open>
  C2, amended: a run that exits early makes no release call at all. The output file
  is never open at that point. The capture is left open exactly when the tracker was
  created and the source had opened (unreadable first frame, empty box, unwritable
  output path), and the selection window is left shown when a first frame had been read
  (empty box, unwritable output path). Only a run that completes its loop releases the
  capture, destroys the windows and closes the file.
\<close>

theorem c2_early_exit_resources:
  "(status (main_ALL c e) = Exited \<longrightarrow>
      \<not> file_open (main_ALL c e) \<and> \<not> list_ex is_release (trace (main_ALL c e)) \<and>
      video_open (main_ALL c e) = (tracker_ALL e (selected_name c) \<noteq> None \<and> opens e) \<and>
      windows (main_ALL c e) =
        (if tracker_ALL e (selected_name c) \<noteq> None \<and> opens e \<and> 0 < n_frames e
         then [''Tracker''] else [])) \<and>
   (status (main_KCF c e) = Exited \<longrightarrow>
      \<not> file_open (main_KCF c e) \<and> \<not> list_ex is_release (trace (main_KCF c e)) \<and>
      video_open (main_KCF c e) = (tracker_KCF e (TRACKER_TYPE c) \<noteq> None \<and> opens e) \<and>
      windows (main_KCF c e) =
        (if tracker_KCF e (TRACKER_TYPE c) \<noteq> None \<and> opens e \<and> 0 < n_frames e
         then [''KCF Tracker''] else [])) \<and>
   (status (main_ALL c e) = Finished \<longrightarrow>
      \<not> video_open (main_ALL c e) \<and> windows (main_ALL c e) = [] \<and> \<not> file_open (main_ALL c e) \<and>
      {VideoRelease, DestroyAllWindows, FileClose} \<subseteq> set (trace (main_ALL c e))) \<and>
   (status (main_KCF c e) = Finished \<longrightarrow>
      \<not> video_open (main_KCF c e) \<and> windows (main_KCF c e) = [] \<and> \<not> file_open (main_KCF c e) \<and>
      {VideoRelease, DestroyAllWindows, FileClose} \<subseteq> set (trace (main_KCF c e)))"
proof (intro conjI impI)
  assume x: "status (main_ALL c e) = Exited"
  then have s: "\<not> starts_ALL c e" by (auto simp: main_ALL_eq split: if_splits)
  show "\<not> file_open (main_ALL c e)" by (simp add: main_ALL_eq)
  show "\<not> list_ex is_release (trace (main_ALL c e))"
    using exited_trace_ALL [OF x] by (simp add: list_ex_iff)
  from s show "video_open (main_ALL c e) = (tracker_ALL e (selected_name c) \<noteq> None \<and> opens e)"
    by (auto simp: main_ALL_eq starts_ALL_def)
  from s show "windows (main_ALL c e) =
        (if tracker_ALL e (selected_name c) \<noteq> None \<and> opens e \<and> 0 < n_frames e
         then [''Tracker''] else [])"
    by (auto simp: main_ALL_eq starts_ALL_def)
next
  assume x: "status (main_KCF c e) = Exited"
  then have s: "\<not> starts_KCF c e" by (auto simp: main_KCF_eq split: if_splits)
  show "\<not> file_open (main_KCF c e)" by (simp add: main_KCF_eq)
  show "\<not> list_ex is_release (trace (main_KCF c e))"
    using exited_trace_KCF [OF x] by (simp add: list_ex_iff)
  from s show "video_open (main_KCF c e) = (tracker_KCF e (TRACKER_TYPE c) \<noteq> None \<and> opens e)"
    by (auto simp: main_KCF_eq starts_KCF_def)
  from s show "windows (main_KCF c e) =
        (if tracker_KCF e (TRACKER_TYPE c) \<noteq> None \<and> opens e \<and> 0 < n_frames e
         then [''KCF Tracker''] else [])"
    by (auto simp: main_KCF_eq starts_KCF_def)
next
  assume x: "status (main_ALL c e) = Finished"
  then have s: "starts_ALL c e" by (auto simp: main_ALL_eq split: if_splits)
  then show "\<not> video_open (main_ALL c e)" "windows (main_ALL c e) = []"
    by (simp_all add: main_ALL_eq starts_ALL_def)
  show "\<not> file_open (main_ALL c e)" by (simp add: main_ALL_eq)
  show "{VideoRelease, DestroyAllWindows, FileClose} \<subseteq> set (trace (main_ALL c e))"
    using x by (rule finished_trace_ALL)
next
  assume x: "status (main_KCF c e) = Finished"
  then have s: "starts_KCF c e" by (auto simp: main_KCF_eq split: if_splits)
  then show "\<not> video_open (main_KCF c e)" "windows (main_KCF c e) = []"
    by (simp_all add: main_KCF_eq starts_KCF_def)
  show "\<not> file_open (main_KCF c e)" by (simp add: main_KCF_eq)
  show "{VideoRelease, DestroyAllWindows, FileClose} \<subseteq> set (trace (main_KCF c e))"
    using x by (rule finished_trace_KCF)
qed


theorem c2_early_exit_resources_witness:
  "status (main_ALL config_ALL env_no_box) = Exited \<and>
   status (main_KCF config_KCF env_no_box) = Exited \<and>
   status (main_ALL config_ALL env_demo) = Finished \<and>
   status (main_KCF config_KCF env_demo) = Finished \<and>
   \<not> file_open (main_KCF config_KCF env_no_box) \<and>
   \<not> list_ex is_release (trace (main_ALL config_ALL env_no_box)) \<and>
   video_open (main_ALL config_ALL env_no_box) \<and>
   windows (main_KCF config_KCF env_no_box) = [''KCF Tracker''] \<and>
   \<not> video_open (main_ALL config_ALL env_demo) \<and>
   windows (main_KCF config_KCF env_demo) = []"
proof -
  have x: "status (main_ALL config_ALL env_no_box) = Exited"
    "status (main_KCF config_KCF env_no_box) = Exited"
    by (simp_all add: main_ALL_eq main_KCF_eq starts_ALL_def starts_KCF_def no_box_facts)
  have f: "status (main_ALL config_ALL env_demo) = Finished"
    "status (main_KCF config_KCF env_demo) = Finished"
    by (simp_all add: main_ALL_eq main_KCF_eq demo_starts_ALL demo_starts_KCF)
  from c2_early_exit_resources [of config_ALL env_no_box]
       c2_early_exit_resources [of config_KCF env_no_box]
       c2_early_exit_resources [of config_ALL env_demo]
       c2_early_exit_resources [of config_KCF env_demo] x f
  show ?thesis by (simp add: no_box_facts)
qed

subsection \<open>C3: unsupported algorithm name\<close>




subsection \<open>C4: the source cannot be opened\<close>

text \<open>
  C4: when the capture does not open, the process exits; the output file is what it was
  before the run, no attempt to open it is made, and the tracker's \<^verbatim>\<open>init\<close> is never
  called.
\<close>

theorem c4_source_not_opened:
  "\<not> opens e \<longrightarrow>
     status (main_ALL c e) = Exited \<and> disk (main_ALL c e) = disk_before e \<and>
     \<not> list_ex is_file_open (trace (main_ALL c e)) \<and> \<not> list_ex is_init (trace (main_ALL c e)) \<and>
     status (main_KCF c e) = Exited \<and> disk (main_KCF c e) = disk_before e \<and>
     \<not> list_ex is_file_open (trace (main_KCF c e)) \<and> \<not> list_ex is_init (trace (main_KCF c e))"
proof (intro impI)
  assume o: "\<not> opens e"
  then have r: "\<not> ready e" by (simp add: ready_def)
  have a: "\<not> is_init ev" if "ev \<in> set (trace (main_ALL c e))" for ev
    using early_trace_ALL [OF r that] o by (auto simp: is_init_def)
  have b: "\<not> is_init ev" if "ev \<in> set (trace (main_KCF c e))" for ev
    using early_trace_KCF [OF r that] o by (auto simp: is_init_def)
  have a': "\<not> is_file_open ev" if "ev \<in> set (trace (main_ALL c e))" for ev
    using early_trace_ALL [OF r that] o by (auto simp: is_file_open_def)
  have b': "\<not> is_file_open ev" if "ev \<in> set (trace (main_KCF c e))" for ev
    using early_trace_KCF [OF r that] o by (auto simp: is_file_open_def)
  from r a b a' b' show "status (main_ALL c e) = Exited \<and> disk (main_ALL c e) = disk_before e \<and>
     \<not> list_ex is_file_open (trace (main_ALL c e)) \<and> \<not> list_ex is_init (trace (main_ALL c e)) \<and>
     status (main_KCF c e) = Exited \<and> disk (main_KCF c e) = disk_before e \<and>
     \<not> list_ex is_file_open (trace (main_KCF c e)) \<and> \<not> list_ex is_init (trace (main_KCF c e))"
    by (simp add: list_ex_iff) (simp add: main_ALL_eq main_KCF_eq starts_ALL_def starts_KCF_def)
qed


theorem c4_source_not_opened_witness:
  "\<not> opens (env_demo\<lparr>opens := False\<rparr>) \<and>
   status (main_ALL config_ALL (env_demo\<lparr>opens := False\<rparr>)) = Exited \<and>
   disk (main_ALL config_ALL (env_demo\<lparr>opens := False\<rparr>)) = Some ''stale'' \<and>
   \<not> list_ex is_init (trace (main_ALL config_ALL (env_demo\<lparr>opens := False\<rparr>))) \<and>
   status (main_KCF config_KCF (env_demo\<lparr>opens := False\<rparr>)) = Exited \<and>
   disk (main_KCF config_KCF (env_demo\<lparr>opens := False\<rparr>)) = Some ''stale'' \<and>
   \<not> list_ex is_init (trace (main_KCF config_KCF (env_demo\<lparr>opens := False\<rparr>)))"
proof -
  have d: "disk_before (env_demo\<lparr>opens := False\<rparr>) = Some ''stale''" by (simp add: env_demo_def)
  from c4_source_not_opened [of "env_demo\<lparr>opens := False\<rparr>" config_ALL]
       c4_source_not_opened [of "env_demo\<lparr>opens := False\<rparr>" config_KCF] d
  show ?thesis by simp
qed

subsection \<open>C5: empty initial box\<close>

text \<open>
  C5: when the box the user draws has width 0 or height 0, the process exits; the output
  file is what it was before the run, no attempt to open it is made, and the tracker's
  \<^verbatim>\<open>init\<close> is never called.
\<close>

theorem c5_empty_roi:
  "roi e = (x, y, w, h) \<and> (w = 0 \<or> h = 0) \<longrightarrow>
     status (main_ALL c e) = Exited \<and> disk (main_ALL c e) = disk_before e \<and>
     \<not> list_ex is_file_open (trace (main_ALL c e)) \<and> \<not> list_ex is_init (trace (main_ALL c e)) \<and>
     status (main_KCF c e) = Exited \<and> disk (main_KCF c e) = disk_before e \<and>
     \<not> list_ex is_file_open (trace (main_KCF c e)) \<and> \<not> list_ex is_init (trace (main_KCF c e))"
proof (intro impI)
  assume "roi e = (x, y, w, h) \<and> (w = 0 \<or> h = 0)"
  then have z: "fst (snd (snd (roi e))) = 0 \<or> snd (snd (snd (roi e))) = 0" by auto
  then have r: "\<not> ready e" by (auto simp: ready_def)
  have a: "\<not> is_init ev \<and> \<not> is_file_open ev" if "ev \<in> set (trace (main_ALL c e))" for ev
    using early_trace_ALL [OF r that] z by (auto simp: is_init_def is_file_open_def)
  have b: "\<not> is_init ev \<and> \<not> is_file_open ev" if "ev \<in> set (trace (main_KCF c e))" for ev
    using early_trace_KCF [OF r that] z by (auto simp: is_init_def is_file_open_def)
  from r a b show "status (main_ALL c e) = Exited \<and> disk (main_ALL c e) = disk_before e \<and>
     \<not> list_ex is_file_open (trace (main_ALL c e)) \<and> \<not> list_ex is_init (trace (main_ALL c e)) \<and>
     status (main_KCF c e) = Exited \<and> disk (main_KCF c e) = disk_before e \<and>
     \<not> list_ex is_file_open (trace (main_KCF c e)) \<and> \<not> list_ex is_init (trace (main_KCF c e))"
    by (simp add: list_ex_iff) (simp add: main_ALL_eq main_KCF_eq starts_ALL_def starts_KCF_def)
qed


theorem c5_empty_roi_witness:
  "roi env_no_box = (5, 6, 0, 30) \<and>
   status (main_ALL config_ALL env_no_box) = Exited \<and>
   disk (main_ALL config_ALL env_no_box) = Some ''stale'' \<and>
   \<not> list_ex is_file_open (trace (main_ALL config_ALL env_no_box)) \<and>
   \<not> list_ex is_init (trace (main_ALL config_ALL env_no_box)) \<and>
   status (main_KCF config_KCF env_no_box) = Exited \<and>
   disk (main_KCF config_KCF env_no_box) = Some ''stale'' \<and>
   \<not> list_ex is_file_open (trace (main_KCF config_KCF env_no_box)) \<and>
   \<not> list_ex is_init (trace (main_KCF config_KCF env_no_box))"
proof -
  have d: "disk_before env_no_box = Some ''stale''" by (simp add: env_no_box_def env_demo_def)
  from c5_empty_roi [of env_no_box 5 6 0 30 config_ALL]
       c5_empty_roi [of env_no_box 5 6 0 30 config_KCF] d no_box_facts(6)
  show ?thesis by simp
qed

subsection \<open>C6: a tracking failure does not end the run\<close>




subsection \<open>C7: dispatch on the algorithm name\<close>






subsection \<open>C8: the output file is rewritten, not appended\<close>

text \<open>
  C8: when a run that reaches the output stage starts on the file that an earlier run
  left behind, the file afterwards holds this run's header and this run's rows and
  nothing else: it is the file the same run produces when no file existed before.
\<close>

theorem c8_truncated_on_each_run:
  "(starts_KCF c e \<and> disk_before e = disk (main_KCF c' e') \<longrightarrow>
      disk (main_KCF c e) = Some (header_row @ rows_text e) \<and>
      disk (main_KCF c e) = disk (main_KCF c (e\<lparr>disk_before := None\<rparr>))) \<and>
   (starts_ALL c e \<and> disk_before e = disk (main_ALL c' e') \<longrightarrow>
      disk (main_ALL c e) =
        Some (''Algorithm: '' @ selected_name c @ [nl] @ header_row @ rows_text e) \<and>
      disk (main_ALL c e) = disk (main_ALL c (e\<lparr>disk_before := None\<rparr>)))"
  by (simp add: main_KCF_eq main_ALL_eq)


theorem c8_truncated_on_each_run_witness:
  "starts_KCF config_KCF env_second \<and> disk_before env_second = disk (main_KCF config_KCF env_demo) \<and>
   starts_ALL config_ALL env_second_ALL \<and>
   disk_before env_second_ALL = disk (main_ALL config_ALL env_demo) \<and>
   disk (main_KCF config_KCF env_second) = Some (''Frame_ID, X, Y, W, H'' @ [nl] @ ''2, 10, 20, 30, 40'' @ [nl]) \<and>
   disk (main_ALL config_ALL env_second_ALL) =
     Some (''Algorithm: CSRT'' @ [nl] @ ''Frame_ID, X, Y, W, H'' @ [nl] @ ''2, 10, 20, 30, 40'' @ [nl])"
proof -
  have n: "selected_name config_ALL = ''CSRT''" by (simp add: selected_name_def config_ALL_def)
  from c8_truncated_on_each_run [of config_KCF env_second config_KCF env_demo]
       c8_truncated_on_each_run [of config_ALL env_second_ALL config_ALL env_demo]
  show ?thesis
    using second_facts by (simp add: second_rows n header_row_def)
qed

subsection \<open>C9: index out of range in ALL.py\<close>




subsection \<open>C10: frame numbers of the data rows\<close>

text \<open>
  C10: in the output file of a run that reaches the output stage, the lines after the
  header are the rows of the processed frames, and the first field of the k-th of them
  (counting from 0) is the decimal text of k + 2, whatever the tracking result was.
\<close>

theorem c10_frame_numbers:
  "(starts_KCF c e \<longrightarrow>
      disk (main_KCF c e) =
        Some (header_row @ concat (map (row_text e) (processed e (n_frames e - 1) 1))) \<and>
      file_lines (header_row @ concat (map (row_text e) (processed e (n_frames e - 1) 1))) =
        ''Frame_ID, X, Y, W, H'' # map (row_line e) (processed e (n_frames e - 1) 1)) \<and>
   (starts_ALL c e \<longrightarrow>
      disk (main_ALL c e) =
        Some (''Algorithm: '' @ selected_name c @ [nl] @ header_row @
              concat (map (row_text e) (processed e (n_frames e - 1) 1))) \<and>
      file_lines (''Algorithm: '' @ selected_name c @ [nl] @ header_row @
                  concat (map (row_text e) (processed e (n_frames e - 1) 1))) =
        (''Algorithm: '' @ selected_name c) # ''Frame_ID, X, Y, W, H'' #
        map (row_line e) (processed e (n_frames e - 1) 1)) \<and>
   (\<forall>k < length (processed e (n_frames e - 1) 1).
      hd (row_fields (map (row_line e) (processed e (n_frames e - 1) 1) ! k)) = show_int (2 + int k))"
proof (intro conjI impI allI)
  assume "starts_KCF c e"
  then show "disk (main_KCF c e) =
        Some (header_row @ concat (map (row_text e) (processed e (n_frames e - 1) 1)))"
    by (simp add: main_KCF_eq rows_text_def)
  show "file_lines (header_row @ concat (map (row_text e) (processed e (n_frames e - 1) 1))) =
        ''Frame_ID, X, Y, W, H'' # map (row_line e) (processed e (n_frames e - 1) 1)"
    by (rule lines_KCF)
next
  assume s: "starts_ALL c e"
  then show "disk (main_ALL c e) =
        Some (''Algorithm: '' @ selected_name c @ [nl] @ header_row @
              concat (map (row_text e) (processed e (n_frames e - 1) 1)))"
    by (simp add: main_ALL_eq rows_text_def)
  from s have "tracker_ALL e (selected_name c) \<noteq> None"
    unfolding starts_ALL_def by (elim conjE)
  then have "nl \<notin> set (selected_name c)" by (rule tracker_ALL_no_nl)
  then show "file_lines (''Algorithm: '' @ selected_name c @ [nl] @ header_row @
                  concat (map (row_text e) (processed e (n_frames e - 1) 1))) =
        (''Algorithm: '' @ selected_name c) # ''Frame_ID, X, Y, W, H'' #
        map (row_line e) (processed e (n_frames e - 1) 1)"
    by (rule lines_ALL)
next
  fix k assume k: "k < length (processed e (n_frames e - 1) 1)"
  then have "processed e (n_frames e - 1) 1 ! k = 2 + int k"
    using processed_nth [of k e "n_frames e - 1" 1] by simp
  with k show "hd (row_fields (map (row_line e) (processed e (n_frames e - 1) 1) ! k)) = show_int (2 + int k)"
    by (simp add: first_field)
qed


theorem c10_frame_numbers_witness:
  "starts_KCF config_KCF env_demo \<and> starts_ALL config_ALL env_demo \<and>
   length (processed env_demo (n_frames env_demo - 1) 1) = 2 \<and>
   hd (row_fields (map (row_line env_demo) (processed env_demo (n_frames env_demo - 1) 1) ! 0)) = ''2'' \<and>
   hd (row_fields (map (row_line env_demo) (processed env_demo (n_frames env_demo - 1) 1) ! 1)) = ''3'' \<and>
   file_lines (header_row @ concat (map (row_text env_demo) (processed env_demo (n_frames env_demo - 1) 1)))
     = ''Frame_ID, X, Y, W, H'' # map (row_line env_demo) (processed env_demo (n_frames env_demo - 1) 1)"
proof -
  have l: "length (processed env_demo (n_frames env_demo - 1) 1) = 2"
    unfolding demo_processed by simp
  from c10_frame_numbers [of config_KCF env_demo] c10_frame_numbers [of config_ALL env_demo]
  have a: "\<forall>k < length (processed env_demo (n_frames env_demo - 1) 1).
      hd (row_fields (map (row_line env_demo) (processed env_demo (n_frames env_demo - 1) 1) ! k)) = show_int (2 + int k)"
    and b: "file_lines (header_row @ concat (map (row_text env_demo) (processed env_demo (n_frames env_demo - 1) 1)))
     = ''Frame_ID, X, Y, W, H'' # map (row_line env_demo) (processed env_demo (n_frames env_demo - 1) 1)"
    using demo_starts_KCF by blast+
  from a l have "hd (row_fields (map (row_line env_demo) (processed env_demo (n_frames env_demo - 1) 1) ! 0)) = show_int (2 + int 0)"
    and "hd (row_fields (map (row_line env_demo) (processed env_demo (n_frames env_demo - 1) 1) ! 1)) = show_int (2 + int 1)"
    by simp_all
  then show ?thesis using l b demo_starts_KCF demo_starts_ALL by (simp add: show_int_2)
qed

end
